theory Spec2Isabelle
  imports Complex_Main
begin

section \<open>Data model\<close>

text \<open>
  The salary record of \<^verbatim>\<open>models/EmpInfo.ts\<close> (interface \<^verbatim>\<open>SalaryInfo\<close>).
  A JavaScript \<^verbatim>\<open>number\<close> that holds money is modelled as a \<open>real\<close>: comparisons and the
  order of the arithmetic are those of the source, the rounding of IEEE doubles and the
  values NaN and Infinity are not modelled (an amount is read from a
  \<^verbatim>\<open>DECIMAL(10, 2)\<close> column with \<^verbatim>\<open>parseFloat\<close>, so it is a finite number).  \<^verbatim>\<open>month\<close> and \<^verbatim>\<open>year\<close> are whole numbers: the
  \<^verbatim>\<open>salaries\<close> table (models/Salary.ts and its migration) declares both columns
  \<^verbatim>\<open>DataTypes.INTEGER\<close>, and \<^verbatim>\<open>DataAccess.getSalariesByUserId\<close> copies them unchanged.
\<close>

record SalaryInfo =
  amount :: real
  month :: int
  year :: int

datatype Status = GREEN | ORANGE | RED

text \<open>
  The values the program throws: the error classes of \<^verbatim>\<open>utils/errors.ts\<close> with their
  messages, a plain \<^verbatim>\<open>Error\<close> and a \<^verbatim>\<open>TypeError\<close> (what reading a property of
  \<^verbatim>\<open>undefined\<close> or \<^verbatim>\<open>null\<close> raises), the values \<^verbatim>\<open>undefined\<close> (also what
  \<^verbatim>\<open>throw lastError!\<close> throws when no attempt has run) and \<^verbatim>\<open>null\<close>, and \<open>Other v\<close>: any
  other value that has no property \<^verbatim>\<open>message\<close> (a string, a number, a plain object), given
  by its text.
\<close>

datatype thrown =
    BadRequestError string
  | NotFoundError string
  | NotAcceptableError string
  | UnprocessableEntityError string
  | InternalServerError string
  | Error string
  | TypeError string
  | Undefined
  | Null
  | Other string

text \<open>The HTTP status code each \<^verbatim>\<open>ApiError\<close> subclass passes to its base class.\<close>

fun statusCode :: "thrown \<Rightarrow> nat option" where
  "statusCode (BadRequestError _) = Some 400"
| "statusCode (NotFoundError _) = Some 404"
| "statusCode (NotAcceptableError _) = Some 406"
| "statusCode (UnprocessableEntityError _) = Some 422"
| "statusCode (InternalServerError _) = Some 500"
| "statusCode (Error _) = None"
| "statusCode (TypeError _) = None"
| "statusCode Undefined = None"
| "statusCode Null = None"
| "statusCode (Other _) = None"

text \<open>
  The property read \<^verbatim>\<open>error.message\<close>: the message of an error object, \<^verbatim>\<open>undefined\<close>
  (\<open>None\<close>) for a value without that property, and a \<^verbatim>\<open>TypeError\<close> thrown when the value
  is \<^verbatim>\<open>undefined\<close> or \<^verbatim>\<open>null\<close>; \<open>cannotReadMessage\<close> is that \<^verbatim>\<open>TypeError\<close>, with the
  message Node gives it.
\<close>

definition cannotReadMessage :: "string \<Rightarrow> thrown" where
  "cannotReadMessage v =
     TypeError (''Cannot read properties of '' @ v @ '' (reading '' @ [CHR 0x27] @ ''message''
                @ [CHR 0x27] @ '')'')"

fun message :: "thrown \<Rightarrow> thrown + string option" where
  "message (BadRequestError m) = Inr (Some m)"
| "message (NotFoundError m) = Inr (Some m)"
| "message (NotAcceptableError m) = Inr (Some m)"
| "message (UnprocessableEntityError m) = Inr (Some m)"
| "message (InternalServerError m) = Inr (Some m)"
| "message (Error m) = Inr (Some m)"
| "message (TypeError m) = Inr (Some m)"
| "message Undefined = Inl (cannotReadMessage ''undefined'')"
| "message Null = Inl (cannotReadMessage ''null'')"
| "message (Other _) = Inr None"


text \<open>
  Class \<^verbatim>\<open>EmpInfo\<close>.  The field \<^verbatim>\<open>id\<close> is named \<open>emp_id\<close> here; \<^verbatim>\<open>status\<close> is
  \<^verbatim>\<open>null\<close> (\<open>None\<close>) until it is set.
\<close>

record EmpInfo =
  emp_id :: string
  username :: string
  nationalNumber :: string
  email :: string
  phone :: string
  isActive :: bool
  salaries :: "SalaryInfo list"
  adjustedSalaries :: "SalaryInfo list"
  totalSalary :: real
  averageSalary :: real
  highestSalary :: real
  taxAmount :: real
  status :: "Status option"
  lastUpdated :: string

text \<open>The constructor; \<open>now\<close> is what \<^verbatim>\<open>new Date().toISOString()\<close> returns.\<close>

definition EmpInfo_new ::
  "string \<Rightarrow> string \<Rightarrow> string \<Rightarrow> string \<Rightarrow> string \<Rightarrow> bool \<Rightarrow> string \<Rightarrow> EmpInfo" where
  "EmpInfo_new i u n e p a now =
     \<lparr>emp_id = i, username = u, nationalNumber = n, email = e, phone = p, isActive = a,
      salaries = [], adjustedSalaries = [], totalSalary = 0, averageSalary = 0,
      highestSalary = 0, taxAmount = 0, status = None, lastUpdated = now\<rparr>"

section \<open>Validator\<close>

text \<open>
  A string is a list of characters with codes below 256.  \<^verbatim>\<open>String.prototype.trim\<close> removes
  white space and line terminators at both ends; \<^verbatim>\<open>/^[A-Z]{3}\d{4}$/i\<close> accepts exactly
  three ASCII letters followed by four ASCII digits.
\<close>

definition isWhiteSpace :: "char \<Rightarrow> bool" where
  "isWhiteSpace c = (of_char c \<in> {9, 10, 11, 12, 13, 32, 160 :: nat})"

definition trim :: "string \<Rightarrow> string" where
  "trim s = rev (dropWhile isWhiteSpace (rev (dropWhile isWhiteSpace s)))"

definition isLetter :: "char \<Rightarrow> bool" where
  "isLetter c = (let n = of_char c :: nat in (65 \<le> n \<and> n \<le> 90) \<or> (97 \<le> n \<and> n \<le> 122))"

definition isDigit :: "char \<Rightarrow> bool" where
  "isDigit c = (let n = of_char c :: nat in 48 \<le> n \<and> n \<le> 57)"

definition nationalNumberRegex_test :: "string \<Rightarrow> bool" where
  "nationalNumberRegex_test s =
     (length s = 7 \<and> list_all isLetter (take 3 s) \<and> list_all isDigit (drop 3 s))"

definition validateNationalNumber :: "string \<Rightarrow> bool" where
  "validateNationalNumber nationalNumber' =
     (if nationalNumber' = [] then False
      else let trimmed = trim nationalNumber' in
        if length trimmed = 0 then False
        else nationalNumberRegex_test trimmed)"

definition hasSufficientData :: "nat \<Rightarrow> bool" where
  "hasSufficientData salaryCount = (salaryCount \<ge> 3)"

definition isUserActive :: "bool \<Rightarrow> bool" where
  "isUserActive isActive' = (isActive' = True)"

record ValidationResult =
  isValid :: bool
  error :: "string option"

text \<open>
  \<^verbatim>\<open>validateSalaryData\<close>: the loop returns at the first record that fails a check.  The
  \<^verbatim>\<open>typeof\<close> tests and \<^verbatim>\<open>Array.isArray\<close> hold by the types of the model.
\<close>

fun validateSalaryData :: "SalaryInfo list \<Rightarrow> ValidationResult" where
  "validateSalaryData [] = \<lparr>isValid = True, error = None\<rparr>"
| "validateSalaryData (salary # rest) =
     (if amount salary < 0 then \<lparr>isValid = False, error = Some ''Invalid salary amount''\<rparr>
      else if month salary < 1 \<or> month salary > 12
        then \<lparr>isValid = False, error = Some ''Invalid month value''\<rparr>
      else if year salary < 2000 then \<lparr>isValid = False, error = Some ''Invalid year value''\<rparr>
      else validateSalaryData rest)"

section \<open>ProcessStatus: the rule engine\<close>

definition applyDecemberBonus :: "SalaryInfo list \<Rightarrow> SalaryInfo list" where
  "applyDecemberBonus salaries' =
     map (\<lambda>salary. if month salary = 12
                    then salary\<lparr>amount := amount salary * 1.10\<rparr>
                    else salary) salaries'"

definition applySummerDeduction :: "SalaryInfo list \<Rightarrow> SalaryInfo list" where
  "applySummerDeduction salaries' =
     map (\<lambda>salary. if month salary \<ge> 6 \<and> month salary \<le> 8
                    then salary\<lparr>amount := amount salary * 0.95\<rparr>
                    else salary) salaries'"

definition applySalaryAdjustments :: "SalaryInfo list \<Rightarrow> SalaryInfo list" where
  "applySalaryAdjustments salaries' =
     (let adjusted = applyDecemberBonus salaries';
          adjusted = applySummerDeduction adjusted
      in adjusted)"

definition calculateTotalSalary :: "SalaryInfo list \<Rightarrow> real" where
  "calculateTotalSalary salaries' = foldl (\<lambda>sum salary. sum + amount salary) 0 salaries'"

definition calculateTax :: "real \<Rightarrow> real" where
  "calculateTax totalSalary' = (if totalSalary' > 10000 then totalSalary' * 0.07 else 0)"

definition calculateAverageSalary :: "real \<Rightarrow> real \<Rightarrow> real \<Rightarrow> real" where
  "calculateAverageSalary totalSalary' taxAmount' salaryCount =
     (if salaryCount = 0 then 0
      else let afterTax = totalSalary' - taxAmount' in afterTax / salaryCount)"

text \<open>\<^verbatim>\<open>Math.max(...xs)\<close> on a list that is not empty.\<close>

definition findHighestSalary :: "SalaryInfo list \<Rightarrow> real" where
  "findHighestSalary salaries' =
     (case map amount salaries' of [] \<Rightarrow> 0 | a # as \<Rightarrow> fold max as a)"

definition determineStatus :: "real \<Rightarrow> Status" where
  "determineStatus averageSalary' =
     (if averageSalary' \<ge> 5000 then GREEN
      else if averageSalary' \<ge> 3000 then ORANGE
      else RED)"

text \<open>
  \<^verbatim>\<open>processEmployeeStatus\<close> mutates the \<^verbatim>\<open>EmpInfo\<close> object through its setters and returns
  it, or throws.  The model returns the exception, if any, together with the state of the
  object when the call ends; \<open>now\<close> is the clock read by \<^verbatim>\<open>updateTimestamp\<close>.
\<close>

definition processEmployeeStatus :: "string \<Rightarrow> EmpInfo \<Rightarrow> thrown option \<times> EmpInfo" where
  "processEmployeeStatus now empInfo =
     (if \<not> isUserActive (isActive empInfo)
        then (Some (NotAcceptableError ''User is not active''), empInfo)
      else if \<not> hasSufficientData (length (salaries empInfo))
        then (Some (UnprocessableEntityError
                ''Insufficient salary data (minimum 3 records required)''), empInfo)
      else let salaryValidation = validateSalaryData (salaries empInfo) in
        if \<not> isValid salaryValidation
          then (Some (BadRequestError
                  (case error salaryValidation of
                     Some e \<Rightarrow> if e \<noteq> [] then e else ''Invalid salary data''
                   | None \<Rightarrow> ''Invalid salary data'')), empInfo)
        else
          let adjustedSalaries' = applySalaryAdjustments (salaries empInfo);
              empInfo = empInfo\<lparr>adjustedSalaries := adjustedSalaries'\<rparr>;
              totalSalary' = calculateTotalSalary adjustedSalaries';
              empInfo = empInfo\<lparr>totalSalary := totalSalary'\<rparr>;
              taxAmount' = calculateTax totalSalary';
              empInfo = empInfo\<lparr>taxAmount := taxAmount'\<rparr>;
              averageSalary' = calculateAverageSalary totalSalary' taxAmount'
                                 (real (length adjustedSalaries'));
              empInfo = empInfo\<lparr>averageSalary := averageSalary'\<rparr>;
              highestSalary' = findHighestSalary adjustedSalaries';
              empInfo = empInfo\<lparr>highestSalary := highestSalary'\<rparr>;
              status' = determineStatus averageSalary';
              empInfo = empInfo\<lparr>status := Some status'\<rparr>;
              empInfo = empInfo\<lparr>lastUpdated := now\<rparr>
          in (None, empInfo))"

section \<open>The adjustment on the heap\<close>

text \<open>
  In the source a salary list is an array of references to objects, \<^verbatim>\<open>Array.prototype.map\<close>
  builds a new array, and the callbacks either build a new object with the spread syntax
  (\<^verbatim>\<open>{...salary, amount: ...}\<close>) or return the reference they were given.  To state what
  happens to the caller's array and objects the heap is explicit: objects and arrays live
  in two stores, an address is an index into its store, and allocation appends.  A
  reference of a running program always points to an allocated object, so the theorems
  below are about heaps in which the array read and the references it holds are allocated.
\<close>

record heap =
  objects :: "SalaryInfo list"
  arrays :: "nat list list"

definition new_object :: "heap \<Rightarrow> SalaryInfo \<Rightarrow> nat \<times> heap" where
  "new_object h v = (length (objects h), h\<lparr>objects := objects h @ [v]\<rparr>)"

definition new_array :: "heap \<Rightarrow> nat list \<Rightarrow> nat \<times> heap" where
  "new_array h rs = (length (arrays h), h\<lparr>arrays := arrays h @ [rs]\<rparr>)"

text \<open>
  \<^verbatim>\<open>array.map(callback)\<close>: the callback is run on the elements at the indices \<open>ks\<close> in
  turn, each element read when its turn comes, and the results are collected in a new array.
\<close>

fun Array_map_from ::
  "(heap \<Rightarrow> nat \<Rightarrow> nat \<times> heap) \<Rightarrow> nat \<Rightarrow> nat list \<Rightarrow> heap \<Rightarrow> nat list \<times> heap" where
  "Array_map_from callback a [] h = ([], h)"
| "Array_map_from callback a (k # ks) h =
     (let (r, h1) = callback h (arrays h ! a ! k);
          (rs, h2) = Array_map_from callback a ks h1
      in (r # rs, h2))"

definition Array_map :: "(heap \<Rightarrow> nat \<Rightarrow> nat \<times> heap) \<Rightarrow> heap \<Rightarrow> nat \<Rightarrow> nat \<times> heap" where
  "Array_map callback h a =
     (let (rs, h') = Array_map_from callback a [0..<length (arrays h ! a)] h
      in new_array h' rs)"

definition decemberBonusCallback :: "heap \<Rightarrow> nat \<Rightarrow> nat \<times> heap" where
  "decemberBonusCallback h r =
     (let salary = objects h ! r in
      if month salary = 12
        then new_object h (salary\<lparr>amount := amount salary * 1.10\<rparr>)
        else (r, h))"

definition summerDeductionCallback :: "heap \<Rightarrow> nat \<Rightarrow> nat \<times> heap" where
  "summerDeductionCallback h r =
     (let salary = objects h ! r in
      if month salary \<ge> 6 \<and> month salary \<le> 8
        then new_object h (salary\<lparr>amount := amount salary * 0.95\<rparr>)
        else (r, h))"

definition applyDecemberBonus_heap :: "heap \<Rightarrow> nat \<Rightarrow> nat \<times> heap" where
  "applyDecemberBonus_heap h salaries' = Array_map decemberBonusCallback h salaries'"

definition applySummerDeduction_heap :: "heap \<Rightarrow> nat \<Rightarrow> nat \<times> heap" where
  "applySummerDeduction_heap h salaries' = Array_map summerDeductionCallback h salaries'"

definition applySalaryAdjustments_heap :: "heap \<Rightarrow> nat \<Rightarrow> nat \<times> heap" where
  "applySalaryAdjustments_heap h salaries' =
     (let (adjusted, h1) = applyDecemberBonus_heap h salaries';
          (adjusted, h2) = applySummerDeduction_heap h1 adjusted
      in (adjusted, h2))"

text \<open>The records an array holds, read through its references.\<close>

definition records_of :: "heap \<Rightarrow> nat \<Rightarrow> SalaryInfo list" where
  "records_of h a = map (\<lambda>r. objects h ! r) (arrays h ! a)"

text \<open>The array \<open>a\<close> and every reference it holds are allocated in \<open>h\<close>.\<close>

definition allocated :: "heap \<Rightarrow> nat \<Rightarrow> bool" where
  "allocated h a = (a < length (arrays h) \<and> list_all (\<lambda>r. r < length (objects h)) (arrays h ! a))"

text \<open>
  Both callbacks have one shape: test the record, and either allocate the changed copy or
  hand back the reference.
\<close>

definition adjustCallback ::
  "(SalaryInfo \<Rightarrow> bool) \<Rightarrow> (SalaryInfo \<Rightarrow> SalaryInfo) \<Rightarrow> heap \<Rightarrow> nat \<Rightarrow> nat \<times> heap" where
  "adjustCallback p g h r =
     (let salary = objects h ! r in if p salary then new_object h (g salary) else (r, h))"

section \<open>RetryHandler\<close>

text \<open>
  \<^verbatim>\<open>RetryOptions\<close>: every field is optional.  The \<^verbatim>\<open>onRetry\<close> callback is a function of
  the caller: called with the attempt number and the error, in a state \<open>'s\<close> (the one the
  operation works on), it returns normally (\<open>None\<close>) or throws, and leaves a new state.
\<close>

record 's RetryOptions =
  opt_maxAttempts :: "int option"
  opt_initialDelay :: "real option"
  opt_maxDelay :: "real option"
  opt_backoffMultiplier :: "real option"
  opt_onRetry :: "(int \<Rightarrow> thrown \<Rightarrow> 's \<Rightarrow> thrown option \<times> 's) option"

record 's RetryConfig =
  maxAttempts :: int
  initialDelay :: real
  maxDelay :: real
  backoffMultiplier :: real
  onRetry :: "int \<Rightarrow> thrown \<Rightarrow> 's \<Rightarrow> thrown option \<times> 's"

text \<open>
  The default callback \<^verbatim>\<open>Logger.warn(`Retry attempt ${attempt}`, { error: error.message })\<close>:
  it reads the message of the error, which throws when there is none to read, and writes
  a log line.
\<close>

definition default_onRetry :: "int \<Rightarrow> thrown \<Rightarrow> 's \<Rightarrow> thrown option \<times> 's" where
  "default_onRetry attempt err s =
     (case message err of Inl typeError \<Rightarrow> (Some typeError, s) | Inr m \<Rightarrow> (None, s))"

definition DEFAULT_OPTIONS :: "'s RetryConfig" where
  "DEFAULT_OPTIONS =
     \<lparr>maxAttempts = 3, initialDelay = 1000, maxDelay = 10000, backoffMultiplier = 2,
      onRetry = default_onRetry\<rparr>"

text \<open>The object spread \<^verbatim>\<open>{ ...DEFAULT_OPTIONS, ...options }\<close>.\<close>

definition spread_options :: "'s RetryConfig \<Rightarrow> 's RetryOptions \<Rightarrow> 's RetryConfig" where
  "spread_options d options =
     \<lparr>maxAttempts = (case opt_maxAttempts options of Some v \<Rightarrow> v | None \<Rightarrow> maxAttempts d),
      initialDelay = (case opt_initialDelay options of Some v \<Rightarrow> v | None \<Rightarrow> initialDelay d),
      maxDelay = (case opt_maxDelay options of Some v \<Rightarrow> v | None \<Rightarrow> maxDelay d),
      backoffMultiplier =
        (case opt_backoffMultiplier options of Some v \<Rightarrow> v | None \<Rightarrow> backoffMultiplier d),
      onRetry = (case opt_onRetry options of Some v \<Rightarrow> v | None \<Rightarrow> onRetry d)\<rparr>"

text \<open>
  What the executor does besides invoking the operation: the calls of the callback, the
  sleeps and the two log lines.
\<close>

datatype event =
    OnRetry int thrown
  | Delay real
  | SucceededOnAttempt int
  | AllAttemptsFailed int thrown

text \<open>
  The \<^verbatim>\<open>for\<close> loop of \<^verbatim>\<open>RetryHandler.execute\<close>.  The operation \<open>fn\<close> is any fallible
  operation on a state \<open>'s\<close>: it returns its result or the value it throws, and the new
  state.  \<open>attempt\<close>, \<open>delay\<close> and \<open>lastError\<close> are the loop's variables, \<open>tr\<close> the events
  so far.  In the \<^verbatim>\<open>catch\<close> block, the last attempt reads \<^verbatim>\<open>lastError.message\<close> for its log
  line before it throws \<^verbatim>\<open>lastError\<close>, and every other attempt calls the callback: what
  either of them throws leaves the block, and with it \<^verbatim>\<open>execute\<close>, at once.  When the loop
  ends without returning, \<^verbatim>\<open>throw lastError!\<close> is reached.
\<close>

function execute_loop ::
  "('s \<Rightarrow> (thrown + 'a) \<times> 's) \<Rightarrow> 's RetryConfig \<Rightarrow> int \<Rightarrow> real \<Rightarrow> thrown \<Rightarrow> 's
     \<Rightarrow> event list \<Rightarrow> (thrown + 'a) \<times> 's \<times> event list" where
  "execute_loop fn config attempt delay lastError s tr =
     (if attempt \<le> maxAttempts config then
        (case fn s of
           (Inr result, s') \<Rightarrow>
             (Inr result, s', if attempt > 1 then tr @ [SucceededOnAttempt attempt] else tr)
         | (Inl err, s') \<Rightarrow>
             if attempt = maxAttempts config
               then (case message err of
                       Inl typeError \<Rightarrow> (Inl typeError, s', tr)
                     | Inr m \<Rightarrow>
                         (Inl err, s', tr @ [AllAttemptsFailed (maxAttempts config) err]))
             else (case onRetry config attempt err s' of
                     (Some thrownByCallback, s'') \<Rightarrow>
                       (Inl thrownByCallback, s'', tr @ [OnRetry attempt err])
                   | (None, s'') \<Rightarrow>
                       execute_loop fn config (attempt + 1)
                         (min (delay * backoffMultiplier config) (maxDelay config)) err s''
                         (tr @ [OnRetry attempt err, Delay delay])))
      else (Inl lastError, s, tr))"
  by pat_completeness auto
termination
  by (relation "measure (\<lambda>(fn, config, attempt, delay, lastError, s, tr).
                   nat (maxAttempts config + 1 - attempt))") auto

declare execute_loop.simps [simp del]

definition execute ::
  "('s \<Rightarrow> (thrown + 'a) \<times> 's) \<Rightarrow> 's RetryOptions \<Rightarrow> 's \<Rightarrow> (thrown + 'a) \<times> 's \<times> event list"
  where
  "execute fn options s =
     (let config = spread_options DEFAULT_OPTIONS options
      in execute_loop fn config 1 (initialDelay config) Undefined s [])"

text \<open>
  The callback of \<^verbatim>\<open>wrapDatabaseQuery\<close>, which logs
  \<^verbatim>\<open>{ attempt, error: error.message }\<close> under the name of the query.
\<close>

definition databaseQuery_onRetry :: "int \<Rightarrow> thrown \<Rightarrow> 's \<Rightarrow> thrown option \<times> 's" where
  "databaseQuery_onRetry attempt err s =
     (case message err of Inl typeError \<Rightarrow> (Some typeError, s) | Inr m \<Rightarrow> (None, s))"

definition wrapDatabaseQuery ::
  "('s \<Rightarrow> (thrown + 'a) \<times> 's) \<Rightarrow> 's \<Rightarrow> (thrown + 'a) \<times> 's \<times> event list" where
  "wrapDatabaseQuery queryFn s =
     execute queryFn
       \<lparr>opt_maxAttempts = Some 3, opt_initialDelay = Some 500, opt_maxDelay = None,
        opt_backoffMultiplier = None, opt_onRetry = Some databaseQuery_onRetry\<rparr> s"


text \<open>
  The outcome of invocation number \<open>n\<close> (counted from 0) of an operation \<open>fn\<close> that starts
  in the state \<open>s\<close> and whose state nothing else changes between its invocations.
\<close>

definition outcomes :: "('s \<Rightarrow> (thrown + 'a) \<times> 's) \<Rightarrow> 's \<Rightarrow> nat \<Rightarrow> thrown + 'a" where
  "outcomes fn s n = fst (fn (((\<lambda>x. snd (fn x)) ^^ n) s))"




section \<open>The response and the cache\<close>

text \<open>
  The object \<^verbatim>\<open>EmpInfo.toResponse\<close> builds; its field \<^verbatim>\<open>Status\<close> is named \<open>Status'\<close> here.
\<close>

record SalaryResponse =
  Amount :: real
  Month :: int
  Year :: int

record Response =
  ID :: string
  Username :: string
  NationalNumber :: string
  Email :: string
  Phone :: string
  IsActive :: bool
  Salaries :: "SalaryResponse list"
  TotalSalary :: real
  AverageSalary :: real
  HighestSalary :: real
  TaxAmount :: real
  Status' :: "Status option"
  LastUpdated :: string

definition toResponse :: "EmpInfo \<Rightarrow> Response" where
  "toResponse this =
     \<lparr>ID = emp_id this, Username = username this, NationalNumber = nationalNumber this,
      Email = email this, Phone = phone this, IsActive = isActive this,
      Salaries = map (\<lambda>s. \<lparr>Amount = amount s, Month = month s, Year = year s\<rparr>)
                   (adjustedSalaries this),
      TotalSalary = totalSalary this, AverageSalary = averageSalary this,
      HighestSalary = highestSalary this, TaxAmount = taxAmount this,
      Status' = status this, LastUpdated = lastUpdated this\<rparr>"

text \<open>
  The Redis server as the client sees it: the entries it holds, each with the seconds it
  has to live, and whether a command succeeds (\<open>responsive\<close>) or throws.  The only values
  the program stores are response objects; \<^verbatim>\<open>JSON.stringify\<close> followed by
  \<^verbatim>\<open>JSON.parse\<close> gives such an object back, so an entry holds the response itself.  The
  serialized text of an object is never the empty string and the parsed object is never
  falsy, so the tests \<^verbatim>\<open>if (value)\<close> and \<^verbatim>\<open>if (cachedData)\<close> are tests for a present value.
\<close>

record RedisClient =
  entries :: "string \<Rightarrow> (nat \<times> Response) option"
  responsive :: bool

record CacheHandler =
  client :: "RedisClient option"
  isConnected :: bool
  defaultTTL :: nat

definition CacheHandler_get :: "CacheHandler \<Rightarrow> string \<Rightarrow> Response option" where
  "CacheHandler_get this key =
     (if \<not> isConnected this \<or> client this = None then None
      else case client this of
        None \<Rightarrow> None
      | Some c \<Rightarrow>
          if \<not> responsive c then None
          else (case entries c key of
                  Some (ttl, value) \<Rightarrow> Some value
                | None \<Rightarrow> None))"

definition CacheHandler_set ::
  "CacheHandler \<Rightarrow> string \<Rightarrow> Response \<Rightarrow> nat option \<Rightarrow> CacheHandler" where
  "CacheHandler_set this key value ttl =
     (if \<not> isConnected this \<or> client this = None then this
      else case client this of
        None \<Rightarrow> this
      | Some c \<Rightarrow>
          if \<not> responsive c then this
          else
            let serialized = value;
                expirationTime = (case ttl of
                                    Some t \<Rightarrow> if t \<noteq> 0 then t else defaultTTL this
                                  | None \<Rightarrow> defaultTTL this)
            in this\<lparr>client := Some (c\<lparr>entries := (entries c)(key \<mapsto> (expirationTime, serialized))\<rparr>)\<rparr>)"

definition getEmployeeKey :: "string \<Rightarrow> string" where
  "getEmployeeKey nationalNumber' = ''employee:'' @ nationalNumber'"

section \<open>EmployeeService: the orchestrator\<close>

text \<open>
  A row of the \<^verbatim>\<open>users\<close> table as \<^verbatim>\<open>User.findOne\<close> returns it, under the attribute names of
  the model (\<^verbatim>\<open>UserAttributes\<close>); the fallbacks of the service to the column names
  \<^verbatim>\<open>national_number\<close> and \<^verbatim>\<open>is_active\<close> are then not taken.
\<close>

record User =
  user_id :: string
  user_username :: string
  user_nationalNumber :: string
  user_email :: string
  user_phone :: string
  user_isActive :: bool

text \<open>
  What one request can see and change.  \<open>cache\<close> is the \<^verbatim>\<open>cacheHandler\<close> singleton.  The
  Record Store (\<^verbatim>\<open>dataAccess.getUserWithSalaries\<close>, which queries the database) is outside
  the program: \<open>recordStore n key\<close> is what its invocation number \<open>n\<close> does for \<open>key\<close>
  (throw, return \<^verbatim>\<open>null\<close>, or return the user with the salaries), and \<open>invocations\<close> counts
  the invocations made.  \<open>clock\<close> is the time \<^verbatim>\<open>new Date().toISOString()\<close> reads.
\<close>

record world =
  cache :: CacheHandler
  recordStore :: "nat \<Rightarrow> string \<Rightarrow> thrown + (User \<times> SalaryInfo list) option"
  invocations :: nat
  clock :: string

definition getUserWithSalaries ::
  "string \<Rightarrow> world \<Rightarrow> (thrown + (User \<times> SalaryInfo list) option) \<times> world" where
  "getUserWithSalaries nationalNumber' w =
     (recordStore w (invocations w) nationalNumber', w\<lparr>invocations := Suc (invocations w)\<rparr>)"

text \<open>
  \<^verbatim>\<open>getEmployeeStatus\<close> returns the response or the value thrown, and the world the request
  leaves behind.  Log lines are not part of the world, and the events of the retry executor
  (its log lines and sleeps) are dropped.  The two reads of the clock in one request, in the
  constructor of \<^verbatim>\<open>EmpInfo\<close> and in \<^verbatim>\<open>updateTimestamp\<close>, see the same time.
\<close>

definition getEmployeeStatus :: "string \<Rightarrow> world \<Rightarrow> (thrown + Response) \<times> world" where
  "getEmployeeStatus nationalNumber' w =
     (if \<not> validateNationalNumber nationalNumber'
        then (Inl (BadRequestError
                ''Invalid NationalNumber format. Expected format: NAT1001''), w)
      else
        let cacheKey = getEmployeeKey nationalNumber' in
        case CacheHandler_get (cache w) cacheKey of
          Some cachedData \<Rightarrow> (Inr cachedData, w)
        | None \<Rightarrow>
            (case wrapDatabaseQuery (getUserWithSalaries nationalNumber') w of
               (Inl err, w1, tr) \<Rightarrow> (Inl err, w1)
             | (Inr None, w1, tr) \<Rightarrow>
                 (Inl (NotFoundError (''User with NationalNumber '' @ [CHR 0x27]
                         @ nationalNumber' @ [CHR 0x27] @ '' not found'')), w1)
             | (Inr (Some (user, salaries')), w1, tr) \<Rightarrow>
                 let empInfo = EmpInfo_new (user_id user) (user_username user)
                                 (user_nationalNumber user) (user_email user)
                                 (user_phone user) (user_isActive user) (clock w1);
                     empInfo = empInfo\<lparr>salaries := salaries'\<rparr>
                 in (case processEmployeeStatus (clock w1) empInfo of
                       (Some err, empInfo') \<Rightarrow> (Inl err, w1)
                     | (None, processedEmpInfo) \<Rightarrow>
                         let response = toResponse processedEmpInfo;
                             w2 = w1\<lparr>cache := CacheHandler_set (cache w1) cacheKey response
                                                 (Some 3600)\<rparr>
                         in (Inr response, w2))))"

section \<open>Concrete inputs\<close>

definition salaries3 :: "SalaryInfo list" where
  "salaries3 = [\<lparr>amount = 6000, month = 12, year = 2024\<rparr>,
                \<lparr>amount = 6000, month = 7, year = 2024\<rparr>,
                \<lparr>amount = 6000, month = 1, year = 2024\<rparr>]"

definition employee1 :: EmpInfo where
  "employee1 = (EmpInfo_new ''1'' ''jdoe'' ''NAT1001'' ''jdoe@example.com'' ''0790000001'' True
                  ''2024-01-01T00:00:00.000Z'')\<lparr>salaries := salaries3\<rparr>"

text \<open>A heap with the three records of \<open>salaries3\<close> and one array that holds them.\<close>

definition heap3 :: heap where
  "heap3 = \<lparr>objects = salaries3, arrays = [[0, 1, 2]]\<rparr>"

text \<open>
  Retry options that set \<^verbatim>\<open>maxAttempts\<close> only, and two outcomes of an operation: one that
  fails on its first invocation and succeeds from then on, and one that always fails.
\<close>

definition attempts :: "int \<Rightarrow> 's RetryOptions" where
  "attempts N = \<lparr>opt_maxAttempts = Some N, opt_initialDelay = None, opt_maxDelay = None,
                  opt_backoffMultiplier = None, opt_onRetry = None\<rparr>"





definition query_when_connected :: "bool \<Rightarrow> (thrown + string) \<times> bool" where
  "query_when_connected up =
     (if up then Inr ''row'' else Inl (InternalServerError ''connection lost''), up)"

definition reconnecting_onRetry :: "int \<Rightarrow> thrown \<Rightarrow> bool \<Rightarrow> thrown option \<times> bool" where
  "reconnecting_onRetry attempt err up = (None, True)"

text \<open>
  Three employees of the seeded data: an active one with three salary records, an
  inactive one, and an active one with two records; and a Record Store that always
  answers.
\<close>

definition user1 :: User where
  "user1 = \<lparr>user_id = ''1'', user_username = ''jdoe'', user_nationalNumber = ''NAT1001'',
             user_email = ''jdoe@example.com'', user_phone = ''0790000001'',
             user_isActive = True\<rparr>"

definition user3 :: User where
  "user3 = \<lparr>user_id = ''3'', user_username = ''msmith'', user_nationalNumber = ''NAT1003'',
             user_email = ''msmith@example.com'', user_phone = ''0790000003'',
             user_isActive = False\<rparr>"

definition user5 :: User where
  "user5 = \<lparr>user_id = ''5'', user_username = ''akhan'', user_nationalNumber = ''NAT1005'',
             user_email = ''akhan@example.com'', user_phone = ''0790000005'',
             user_isActive = True\<rparr>"

definition demo_store :: "nat \<Rightarrow> string \<Rightarrow> thrown + (User \<times> SalaryInfo list) option" where
  "demo_store n key =
     (if key = ''NAT1001'' then Inr (Some (user1, salaries3))
      else if key = ''NAT1003'' then Inr (Some (user3, salaries3))
      else if key = ''NAT1005'' then Inr (Some (user5, take 2 salaries3))
      else Inr None)"

definition failing_store :: "nat \<Rightarrow> string \<Rightarrow> thrown + (User \<times> SalaryInfo list) option" where
  "failing_store n key = Inl (InternalServerError ''Database error while fetching user'')"

text \<open>The response for \<open>user1\<close> computed at the time of \<open>world_miss\<close> below.\<close>

definition response1 :: Response where
  "response1 =
     \<lparr>ID = ''1'', Username = ''jdoe'', NationalNumber = ''NAT1001'',
      Email = ''jdoe@example.com'', Phone = ''0790000001'', IsActive = True,
      Salaries = [\<lparr>Amount = 6600, Month = 12, Year = 2024\<rparr>,
                  \<lparr>Amount = 5700, Month = 7, Year = 2024\<rparr>,
                  \<lparr>Amount = 6000, Month = 1, Year = 2024\<rparr>],
      TotalSalary = 18300, AverageSalary = 5673, HighestSalary = 6600, TaxAmount = 1281,
      Status' = Some GREEN, LastUpdated = ''2024-06-01T00:00:00.000Z''\<rparr>"

text \<open>
  Worlds: a connected and empty cache; a cache whose connection failed; a connected and
  empty cache in front of a Record Store that is down; a cache that holds an entry for
  NAT1001 with 120 seconds left, in front of a Record Store that is down.
\<close>

definition world_miss :: world where
  "world_miss =
     \<lparr>cache = \<lparr>client = Some \<lparr>entries = Map.empty, responsive = True\<rparr>,
               isConnected = True, defaultTTL = 3600\<rparr>,
      recordStore = demo_store, invocations = 0, clock = ''2024-06-01T00:00:00.000Z''\<rparr>"

definition world_down :: world where
  "world_down =
     \<lparr>cache = \<lparr>client = Some \<lparr>entries = Map.empty, responsive = False\<rparr>,
               isConnected = False, defaultTTL = 3600\<rparr>,
      recordStore = demo_store, invocations = 0, clock = ''2024-06-01T00:00:00.000Z''\<rparr>"

definition world_db_down :: world where
  "world_db_down =
     \<lparr>cache = \<lparr>client = Some \<lparr>entries = Map.empty, responsive = True\<rparr>,
               isConnected = True, defaultTTL = 3600\<rparr>,
      recordStore = failing_store, invocations = 0, clock = ''2024-06-01T00:00:00.000Z''\<rparr>"

definition world_hit :: world where
  "world_hit =
     \<lparr>cache = \<lparr>client = Some \<lparr>entries = [''employee:NAT1001'' \<mapsto> (120, response1)],
                              responsive = True\<rparr>,
               isConnected = True, defaultTTL = 3600\<rparr>,
      recordStore = failing_store, invocations = 0, clock = ''2024-06-01T00:30:00.000Z''\<rparr>"

section \<open>Properties of the rule engine\<close>

lemma length_applySalaryAdjustments:
  "length (applySalaryAdjustments xs) = length xs"
  by (simp add: applySalaryAdjustments_def applyDecemberBonus_def applySummerDeduction_def)

lemma processEmployeeStatus_success:
  assumes "processEmployeeStatus now e = (None, e')"
  shows "e' = e\<lparr>adjustedSalaries := applySalaryAdjustments (salaries e),
               totalSalary := calculateTotalSalary (applySalaryAdjustments (salaries e)),
               taxAmount := calculateTax (calculateTotalSalary (applySalaryAdjustments (salaries e))),
               averageSalary :=
                 calculateAverageSalary (calculateTotalSalary (applySalaryAdjustments (salaries e)))
                   (calculateTax (calculateTotalSalary (applySalaryAdjustments (salaries e))))
                   (real (length (applySalaryAdjustments (salaries e)))),
               highestSalary := findHighestSalary (applySalaryAdjustments (salaries e)),
               status := Some (determineStatus
                 (calculateAverageSalary (calculateTotalSalary (applySalaryAdjustments (salaries e)))
                   (calculateTax (calculateTotalSalary (applySalaryAdjustments (salaries e))))
                   (real (length (applySalaryAdjustments (salaries e)))))),
               lastUpdated := now\<rparr>"
    and "isActive e" and "3 \<le> length (salaries e)" and "isValid (validateSalaryData (salaries e))"
  using assms
  by (auto simp: processEmployeeStatus_def Let_def isUserActive_def hasSufficientData_def
           split: if_splits)

text \<open>
  C1.  The status is GREEN when the average is at least 5000, ORANGE when it is at least
  3000 and below 5000, and RED when it is below 3000; an average of exactly 3000 is ORANGE
  and one of exactly 5000 is GREEN.
\<close>

theorem determineStatus_bands:
  "(averageSalary' \<ge> 5000 \<longrightarrow> determineStatus averageSalary' = GREEN)
   \<and> (3000 \<le> averageSalary' \<and> averageSalary' < 5000
        \<longrightarrow> determineStatus averageSalary' = ORANGE)
   \<and> (averageSalary' < 3000 \<longrightarrow> determineStatus averageSalary' = RED)
   \<and> determineStatus 3000 = ORANGE \<and> determineStatus 5000 = GREEN"
  by (simp add: determineStatus_def)

theorem determineStatus_bands_witness:
  "determineStatus 2999.99 = RED \<and> determineStatus 3000.00 = ORANGE
   \<and> determineStatus 4999.99 = ORANGE \<and> determineStatus 5000.00 = GREEN"
  using determineStatus_bands [of "2999.99"] determineStatus_bands [of "3000"]
        determineStatus_bands [of "4999.99"] determineStatus_bands [of "5000"]
  by simp

text \<open>
  C2.  The tax is 7 percent of the total when the total is strictly greater than 10000 and
  0 otherwise; a total of exactly 10000.00 pays no tax and a total of 10000.01 pays
  700.0007.
\<close>

theorem calculateTax_threshold:
  "(totalSalary' > 10000 \<longrightarrow> calculateTax totalSalary' = totalSalary' * 0.07)
   \<and> (\<not> totalSalary' > 10000 \<longrightarrow> calculateTax totalSalary' = 0)
   \<and> calculateTax 10000.00 = 0 \<and> calculateTax 10000.01 = 700.0007"
  by (simp add: calculateTax_def)

theorem calculateTax_threshold_witness:
  "calculateTax 20000 = 1400 \<and> calculateTax 9999.99 = 0
   \<and> calculateTax 10000.00 = 0 \<and> calculateTax 10000.01 = 700.0007"
  using calculateTax_threshold [of 20000] calculateTax_threshold [of "9999.99"]
  by simp

lemma employee1_processed:
  "processEmployeeStatus now employee1 =
     (None, employee1\<lparr>adjustedSalaries :=
               [\<lparr>amount = 6600, month = 12, year = 2024\<rparr>,
                \<lparr>amount = 5700, month = 7, year = 2024\<rparr>,
                \<lparr>amount = 6000, month = 1, year = 2024\<rparr>],
             totalSalary := 18300, taxAmount := 1281, averageSalary := 5673,
             highestSalary := 6600, status := Some GREEN, lastUpdated := now\<rparr>)"
  by (simp add: processEmployeeStatus_def employee1_def EmpInfo_new_def salaries3_def
        isUserActive_def hasSufficientData_def applySalaryAdjustments_def
        applyDecemberBonus_def applySummerDeduction_def calculateTotalSalary_def
        calculateTax_def calculateAverageSalary_def findHighestSalary_def determineStatus_def)

text \<open>
  C4.  The average is the total minus the tax, divided by the record count, and 0 when the
  count is 0.  In the pipeline the count is the number of salary records of the employee
  (the adjusted list has as many records as the input), the total is the sum of the
  adjusted amounts and the tax is the tax on that total.
\<close>

theorem average_is_net_total_over_record_count:
  "(salaryCount \<noteq> 0 \<longrightarrow>
      calculateAverageSalary totalSalary' taxAmount' salaryCount
        = (totalSalary' - taxAmount') / salaryCount)
   \<and> (salaryCount = 0 \<longrightarrow> calculateAverageSalary totalSalary' taxAmount' salaryCount = 0)
   \<and> (processEmployeeStatus now empInfo = (None, empInfo') \<longrightarrow>
        length (adjustedSalaries empInfo') = length (salaries empInfo)
        \<and> totalSalary empInfo' = calculateTotalSalary (adjustedSalaries empInfo')
        \<and> taxAmount empInfo' = calculateTax (totalSalary empInfo')
        \<and> averageSalary empInfo'
             = (totalSalary empInfo' - taxAmount empInfo') / real (length (salaries empInfo)))"
proof (intro conjI impI)
  assume ok: "processEmployeeStatus now empInfo = (None, empInfo')"
  note s = processEmployeeStatus_success [OF ok]
  show "length (adjustedSalaries empInfo') = length (salaries empInfo)"
    by (subst s(1)) (simp add: length_applySalaryAdjustments)
  show "totalSalary empInfo' = calculateTotalSalary (adjustedSalaries empInfo')"
    by (subst (1 2) s(1)) simp
  show "taxAmount empInfo' = calculateTax (totalSalary empInfo')"
    by (subst (1 2) s(1)) simp
  show "averageSalary empInfo'
          = (totalSalary empInfo' - taxAmount empInfo') / real (length (salaries empInfo))"
    using s(3)
    by (subst (1 2 3) s(1)) (simp add: calculateAverageSalary_def length_applySalaryAdjustments)
qed (simp_all add: calculateAverageSalary_def)

theorem average_is_net_total_over_record_count_witness:
  "calculateAverageSalary 18300 1281 3 = 5673
   \<and> calculateAverageSalary 18300 1281 0 = 0
   \<and> averageSalary (snd (processEmployeeStatus ''t'' employee1)) = (18300 - 1281) / 3"
proof -
  have p: "processEmployeeStatus ''t'' employee1 = (None, snd (processEmployeeStatus ''t'' employee1))"
    by (simp add: employee1_processed)
  have t: "totalSalary (snd (processEmployeeStatus ''t'' employee1)) = 18300"
    and x: "taxAmount (snd (processEmployeeStatus ''t'' employee1)) = 1281"
    by (simp_all add: employee1_processed)
  have l: "length (salaries employee1) = 3"
    by (simp add: employee1_def salaries3_def)
  show ?thesis
    using average_is_net_total_over_record_count [of 3 18300 1281 "''t''" employee1
        "snd (processEmployeeStatus ''t'' employee1)"]
      average_is_net_total_over_record_count [of 0 18300 1281]
      p t x l
    by simp
qed

text \<open>
  C3.  The adjustment applies the December bonus first and the summer deduction second.  A
  record of month 12 is multiplied by 1.10 in the first step and left as it is by the
  second; a record of month 6, 7 or 8 is left as it is by the first step and multiplied by
  0.95 in the second; and for every record one of the two steps leaves it as it is, so no
  record receives both multipliers.
\<close>

theorem adjustments_bonus_then_deduction:
  "applySalaryAdjustments xs = applySummerDeduction (applyDecemberBonus xs)
   \<and> (\<forall>i < length xs.
        (month (xs ! i) = 12 \<longrightarrow>
           applyDecemberBonus xs ! i = (xs ! i)\<lparr>amount := amount (xs ! i) * 1.10\<rparr>
           \<and> applySalaryAdjustments xs ! i = applyDecemberBonus xs ! i
           \<and> amount (applySalaryAdjustments xs ! i) = amount (xs ! i) * 1.10)
      \<and> (month (xs ! i) \<in> {6, 7, 8} \<longrightarrow>
           applyDecemberBonus xs ! i = xs ! i
           \<and> applySalaryAdjustments xs ! i = (xs ! i)\<lparr>amount := amount (xs ! i) * 0.95\<rparr>
           \<and> amount (applySalaryAdjustments xs ! i) = amount (xs ! i) * 0.95)
      \<and> (applyDecemberBonus xs ! i = xs ! i
           \<or> applySalaryAdjustments xs ! i = applyDecemberBonus xs ! i))"
  by (auto simp: applySalaryAdjustments_def applyDecemberBonus_def applySummerDeduction_def)

theorem adjustments_bonus_then_deduction_witness:
  "amount (applySalaryAdjustments salaries3 ! 0) = 6000 * 1.10
   \<and> applyDecemberBonus salaries3 ! 0 = \<lparr>amount = 6600, month = 12, year = 2024\<rparr>
   \<and> applySalaryAdjustments salaries3 ! 0 = applyDecemberBonus salaries3 ! 0
   \<and> amount (applySalaryAdjustments salaries3 ! 1) = 6000 * 0.95
   \<and> applyDecemberBonus salaries3 ! 1 = salaries3 ! 1"
proof -
  have l: "0 < length salaries3" "1 < length salaries3"
    and m: "month (salaries3 ! 0) = 12" "month (salaries3 ! 1) = 7"
    and a: "amount (salaries3 ! 0) = 6000" "amount (salaries3 ! 1) = 6000"
      "(salaries3 ! 0)\<lparr>amount := 6600\<rparr> = \<lparr>amount = 6600, month = 12, year = 2024\<rparr>"
    by (simp_all add: salaries3_def)
  from adjustments_bonus_then_deduction [of salaries3]
  have "\<forall>i < length salaries3.
        (month (salaries3 ! i) = 12 \<longrightarrow>
           applyDecemberBonus salaries3 ! i = (salaries3 ! i)\<lparr>amount := amount (salaries3 ! i) * 1.10\<rparr>
           \<and> applySalaryAdjustments salaries3 ! i = applyDecemberBonus salaries3 ! i
           \<and> amount (applySalaryAdjustments salaries3 ! i) = amount (salaries3 ! i) * 1.10)
      \<and> (month (salaries3 ! i) \<in> {6, 7, 8} \<longrightarrow>
           applyDecemberBonus salaries3 ! i = salaries3 ! i
           \<and> applySalaryAdjustments salaries3 ! i = (salaries3 ! i)\<lparr>amount := amount (salaries3 ! i) * 0.95\<rparr>
           \<and> amount (applySalaryAdjustments salaries3 ! i) = amount (salaries3 ! i) * 0.95)
      \<and> (applyDecemberBonus salaries3 ! i = salaries3 ! i
           \<or> applySalaryAdjustments salaries3 ! i = applyDecemberBonus salaries3 ! i)"
    by blast
  from this [rule_format, OF l(1)] this [rule_format, OF l(2)] m a
  show ?thesis by simp
qed

text \<open>
  C10.  Each step of the adjustment, and the adjustment as a whole, keeps the month and the
  year of every record, and a record whose month is none of 6, 7, 8 and 12 comes out of
  the adjustment with its amount unchanged (it is the record that went in).
\<close>

theorem adjustments_frame:
  "length (applyDecemberBonus xs) = length xs
   \<and> length (applySummerDeduction xs) = length xs
   \<and> length (applySalaryAdjustments xs) = length xs
   \<and> (\<forall>i < length xs.
         month (applyDecemberBonus xs ! i) = month (xs ! i)
         \<and> year (applyDecemberBonus xs ! i) = year (xs ! i)
         \<and> month (applySummerDeduction xs ! i) = month (xs ! i)
         \<and> year (applySummerDeduction xs ! i) = year (xs ! i)
         \<and> month (applySalaryAdjustments xs ! i) = month (xs ! i)
         \<and> year (applySalaryAdjustments xs ! i) = year (xs ! i)
         \<and> (month (xs ! i) \<notin> {6, 7, 8, 12} \<longrightarrow>
               amount (applySalaryAdjustments xs ! i) = amount (xs ! i)
               \<and> applySalaryAdjustments xs ! i = xs ! i))"
  by (auto simp: applySalaryAdjustments_def applyDecemberBonus_def applySummerDeduction_def)

theorem adjustments_frame_witness:
  "length (applySalaryAdjustments salaries3) = 3
   \<and> month (applySalaryAdjustments salaries3 ! 0) = 12
   \<and> year (applySalaryAdjustments salaries3 ! 0) = 2024
   \<and> month (applySalaryAdjustments salaries3 ! 1) = 7
   \<and> amount (applySalaryAdjustments salaries3 ! 2) = 6000
   \<and> applySalaryAdjustments salaries3 ! 2 = \<lparr>amount = 6000, month = 1, year = 2024\<rparr>"
proof -
  have l: "length salaries3 = 3" "0 < length salaries3" "1 < length salaries3" "2 < length salaries3"
    and m: "month (salaries3 ! 0) = 12" "year (salaries3 ! 0) = 2024" "month (salaries3 ! 1) = 7"
       "month (salaries3 ! 2) \<notin> {6, 7, 8, 12}"
       "salaries3 ! 2 = \<lparr>amount = 6000, month = 1, year = 2024\<rparr>"
    by (simp_all add: salaries3_def)
  note f = adjustments_frame [of salaries3]
  from f have len: "length (applySalaryAdjustments salaries3) = length salaries3" by blast
  from f have "\<forall>i < length salaries3.
         month (applyDecemberBonus salaries3 ! i) = month (salaries3 ! i)
         \<and> year (applyDecemberBonus salaries3 ! i) = year (salaries3 ! i)
         \<and> month (applySummerDeduction salaries3 ! i) = month (salaries3 ! i)
         \<and> year (applySummerDeduction salaries3 ! i) = year (salaries3 ! i)
         \<and> month (applySalaryAdjustments salaries3 ! i) = month (salaries3 ! i)
         \<and> year (applySalaryAdjustments salaries3 ! i) = year (salaries3 ! i)
         \<and> (month (salaries3 ! i) \<notin> {6, 7, 8, 12} \<longrightarrow>
               amount (applySalaryAdjustments salaries3 ! i) = amount (salaries3 ! i)
               \<and> applySalaryAdjustments salaries3 ! i = salaries3 ! i)"
    by blast
  from this [rule_format, OF l(2)] this [rule_format, OF l(3)] this [rule_format, OF l(4)] len l(1) m
  show ?thesis by simp
qed

section \<open>Properties of the adjustment on the heap\<close>

lemma adjustCallback_cases:
  assumes "adjustCallback p g h r = (r', h')" "r < length (objects h)"
  shows "arrays h' = arrays h"
    and "\<exists>ext. objects h' = objects h @ ext"
    and "r' < length (objects h')"
    and "objects h' ! r' = (if p (objects h ! r) then g (objects h ! r) else objects h ! r)"
    and "r' = r \<or> length (objects h) \<le> r'"
  using assms
  by (auto simp: adjustCallback_def new_object_def Let_def nth_append split: if_splits)

lemma Array_map_from_adjust:
  assumes "Array_map_from (adjustCallback p g) a ks h = (rs, h')"
    and "\<forall>k \<in> set ks. k < length (arrays h ! a)"
    and "\<forall>r \<in> set (arrays h ! a). r < length (objects h)"
  shows "arrays h' = arrays h \<and> (\<exists>ext. objects h' = objects h @ ext)
     \<and> length rs = length ks
     \<and> (\<forall>i < length ks. rs ! i < length (objects h')
           \<and> objects h' ! (rs ! i) =
               (if p (objects h ! (arrays h ! a ! (ks ! i)))
                then g (objects h ! (arrays h ! a ! (ks ! i)))
                else objects h ! (arrays h ! a ! (ks ! i)))
           \<and> (rs ! i = arrays h ! a ! (ks ! i) \<or> length (objects h) \<le> rs ! i))"
  using assms
proof (induction ks arbitrary: h rs)
  case Nil
  then show ?case by simp
next
  case (Cons k ks)
  obtain r h1 where cb: "adjustCallback p g h (arrays h ! a ! k) = (r, h1)"
    by (cases "adjustCallback p g h (arrays h ! a ! k)")
  obtain rs' where rest: "Array_map_from (adjustCallback p g) a ks h1 = (rs', h')"
    and rs: "rs = r # rs'"
    using Cons.prems(1) cb by (auto split: prod.splits)
  have kin: "k < length (arrays h ! a)" using Cons.prems(2) by simp
  then have rin: "arrays h ! a ! k < length (objects h)" using Cons.prems(3) by simp
  note c = adjustCallback_cases [OF cb rin]
  obtain ext1 where ext1: "objects h1 = objects h @ ext1" using c(2) by blast
  have p2: "\<forall>k \<in> set ks. k < length (arrays h1 ! a)" using Cons.prems(2) c(1) by simp
  have p3: "\<forall>r \<in> set (arrays h1 ! a). r < length (objects h1)"
    using Cons.prems(3) c(1) ext1 by auto
  note IH = Cons.IH [OF rest p2 p3]
  obtain ext2 where ext2: "objects h' = objects h1 @ ext2" using IH by blast
  have old: "\<And>x. x < length (objects h) \<Longrightarrow> objects h1 ! x = objects h ! x"
    by (simp add: ext1 nth_append)
  have old1: "\<And>x. x < length (objects h1) \<Longrightarrow> objects h' ! x = objects h1 ! x"
    by (simp add: ext2 nth_append)
  have a1: "arrays h' = arrays h" using IH c(1) by simp
  have a2: "\<exists>ext. objects h' = objects h @ ext" using ext1 ext2 by simp
  have a3: "length rs = length (k # ks)" using IH rs by simp
  have a4: "rs ! i < length (objects h')
           \<and> objects h' ! (rs ! i) =
               (if p (objects h ! (arrays h ! a ! ((k # ks) ! i)))
                then g (objects h ! (arrays h ! a ! ((k # ks) ! i)))
                else objects h ! (arrays h ! a ! ((k # ks) ! i)))
           \<and> (rs ! i = arrays h ! a ! ((k # ks) ! i) \<or> length (objects h) \<le> rs ! i)"
    if i: "i < length (k # ks)" for i
  proof (cases i)
    case 0
    then show ?thesis using c(3,4,5) rs old1 ext2 by auto
  next
    case (Suc j)
    then have j: "j < length ks" using i by simp
    then have kj: "ks ! j < length (arrays h ! a)" using Cons.prems(2) by simp
    then have rj: "arrays h ! a ! (ks ! j) < length (objects h)" using Cons.prems(3) by simp
    from IH j have "rs' ! j < length (objects h')
         \<and> objects h' ! (rs' ! j) =
             (if p (objects h1 ! (arrays h1 ! a ! (ks ! j)))
              then g (objects h1 ! (arrays h1 ! a ! (ks ! j)))
              else objects h1 ! (arrays h1 ! a ! (ks ! j)))
         \<and> (rs' ! j = arrays h1 ! a ! (ks ! j) \<or> length (objects h1) \<le> rs' ! j)"
      by blast
    then show ?thesis using Suc rs c(1) old [OF rj] ext1 by auto
  qed
  show ?case using a1 a2 a3 a4 by blast
qed

lemma Array_map_adjust:
  assumes m: "Array_map (adjustCallback p g) h a = (a', h')" and al: "allocated h a"
  shows "a' = length (arrays h)"
    and "\<exists>rs. arrays h' = arrays h @ [rs]"
    and "\<exists>ext. objects h' = objects h @ ext"
    and "length (arrays h' ! a') = length (arrays h ! a)"
    and "\<forall>i < length (arrays h ! a).
           arrays h' ! a' ! i < length (objects h')
           \<and> objects h' ! (arrays h' ! a' ! i) =
               (if p (objects h ! (arrays h ! a ! i)) then g (objects h ! (arrays h ! a ! i))
                else objects h ! (arrays h ! a ! i))
           \<and> (arrays h' ! a' ! i = arrays h ! a ! i \<or> length (objects h) \<le> arrays h' ! a' ! i)"
proof -
  obtain rs h1 where
    f: "Array_map_from (adjustCallback p g) a [0..<length (arrays h ! a)] h = (rs, h1)"
    by (cases "Array_map_from (adjustCallback p g) a [0..<length (arrays h ! a)] h")
  have r: "(a', h') = new_array h1 rs"
    using m f by (simp add: Array_map_def)
  have "\<forall>k \<in> set [0..<length (arrays h ! a)]. k < length (arrays h ! a)" by simp
  moreover have "\<forall>r \<in> set (arrays h ! a). r < length (objects h)"
    using al by (simp add: allocated_def list_all_iff)
  ultimately have fr: "arrays h1 = arrays h \<and> (\<exists>ext. objects h1 = objects h @ ext)
     \<and> length rs = length [0..<length (arrays h ! a)]
     \<and> (\<forall>i < length [0..<length (arrays h ! a)]. rs ! i < length (objects h1)
           \<and> objects h1 ! (rs ! i) =
               (if p (objects h ! (arrays h ! a ! ([0..<length (arrays h ! a)] ! i)))
                then g (objects h ! (arrays h ! a ! ([0..<length (arrays h ! a)] ! i)))
                else objects h ! (arrays h ! a ! ([0..<length (arrays h ! a)] ! i)))
           \<and> (rs ! i = arrays h ! a ! ([0..<length (arrays h ! a)] ! i)
                \<or> length (objects h) \<le> rs ! i))"
    using Array_map_from_adjust [OF f] by blast
  have a': "a' = length (arrays h)" and h': "h' = h1\<lparr>arrays := arrays h @ [rs]\<rparr>"
    using r fr by (simp_all add: new_array_def)
  show "a' = length (arrays h)" by (rule a')
  show "\<exists>rs. arrays h' = arrays h @ [rs]" using h' by simp
  show "\<exists>ext. objects h' = objects h @ ext" using h' fr by simp
  have nth: "arrays h' ! a' = rs" using a' h' by simp
  show "length (arrays h' ! a') = length (arrays h ! a)" using nth fr by simp
  show "\<forall>i < length (arrays h ! a).
           arrays h' ! a' ! i < length (objects h')
           \<and> objects h' ! (arrays h' ! a' ! i) =
               (if p (objects h ! (arrays h ! a ! i)) then g (objects h ! (arrays h ! a ! i))
                else objects h ! (arrays h ! a ! i))
           \<and> (arrays h' ! a' ! i = arrays h ! a ! i \<or> length (objects h) \<le> arrays h' ! a' ! i)"
  proof (intro allI impI)
    fix i assume i: "i < length (arrays h ! a)"
    then have "i < length [0..<length (arrays h ! a)]" by simp
    with fr have "rs ! i < length (objects h1)
           \<and> objects h1 ! (rs ! i) =
               (if p (objects h ! (arrays h ! a ! ([0..<length (arrays h ! a)] ! i)))
                then g (objects h ! (arrays h ! a ! ([0..<length (arrays h ! a)] ! i)))
                else objects h ! (arrays h ! a ! ([0..<length (arrays h ! a)] ! i)))
           \<and> (rs ! i = arrays h ! a ! ([0..<length (arrays h ! a)] ! i)
                \<or> length (objects h) \<le> rs ! i)"
      by blast
    then show "arrays h' ! a' ! i < length (objects h')
           \<and> objects h' ! (arrays h' ! a' ! i) =
               (if p (objects h ! (arrays h ! a ! i)) then g (objects h ! (arrays h ! a ! i))
                else objects h ! (arrays h ! a ! i))
           \<and> (arrays h' ! a' ! i = arrays h ! a ! i \<or> length (objects h) \<le> arrays h' ! a' ! i)"
      using i nth h' by simp
  qed
qed

lemma Array_map_adjust_allocated:
  assumes "Array_map (adjustCallback p g) h a = (a', h')" and "allocated h a"
  shows "allocated h' a'"
proof -
  note r = Array_map_adjust [OF assms]
  obtain rs where rs: "arrays h' = arrays h @ [rs]" using r(2) by blast
  have "a' < length (arrays h')" using r(1) rs by simp
  moreover have "\<forall>i < length (arrays h' ! a'). arrays h' ! a' ! i < length (objects h')"
    using r(4,5) by simp
  ultimately show ?thesis
    by (simp add: allocated_def list_all_length)
qed

lemma Array_map_adjust_records:
  assumes "Array_map (adjustCallback p g) h a = (a', h')" and "allocated h a"
  shows "records_of h' a' = map (\<lambda>s. if p s then g s else s) (records_of h a)"
proof -
  note r = Array_map_adjust [OF assms]
  show ?thesis
    unfolding records_of_def
    by (rule nth_equalityI) (use r(4,5) in \<open>simp_all\<close>)
qed

lemma decemberBonusCallback_adjust:
  "decemberBonusCallback =
     adjustCallback (\<lambda>s. month s = 12) (\<lambda>s. s\<lparr>amount := amount s * 1.10\<rparr>)"
  by (intro ext) (simp only: decemberBonusCallback_def adjustCallback_def)

lemma summerDeductionCallback_adjust:
  "summerDeductionCallback =
     adjustCallback (\<lambda>s. month s \<ge> 6 \<and> month s \<le> 8) (\<lambda>s. s\<lparr>amount := amount s * 0.95\<rparr>)"
  by (intro ext) (simp only: summerDeductionCallback_def adjustCallback_def)


lemma applySalaryAdjustments_map:
  "applySalaryAdjustments xs =
     map (\<lambda>s. if month s \<ge> 6 \<and> month s \<le> 8 then s\<lparr>amount := amount s * 0.95\<rparr> else s)
       (map (\<lambda>s. if month s = 12 then s\<lparr>amount := amount s * 1.10\<rparr> else s) xs)"
  by (simp only: applySalaryAdjustments_def applyDecemberBonus_def applySummerDeduction_def Let_def)

lemma applySalaryAdjustments_heap_steps:
  assumes r: "applySalaryAdjustments_heap h a = (a', h')"
  obtains a1 h1 where
    "Array_map (adjustCallback (\<lambda>s. month s = 12) (\<lambda>s. s\<lparr>amount := amount s * 1.10\<rparr>)) h a
       = (a1, h1)"
    "Array_map (adjustCallback (\<lambda>s. month s \<ge> 6 \<and> month s \<le> 8)
                  (\<lambda>s. s\<lparr>amount := amount s * 0.95\<rparr>)) h1 a1 = (a', h')"
proof -
  obtain a1 h1 where 1: "applyDecemberBonus_heap h a = (a1, h1)"
    by (cases "applyDecemberBonus_heap h a")
  then have 2: "applySummerDeduction_heap h1 a1 = (a', h')"
    using r by (simp add: applySalaryAdjustments_heap_def)
  show thesis
    using that 1 2
    by (simp only: applyDecemberBonus_heap_def applySummerDeduction_heap_def
          decemberBonusCallback_adjust summerDeductionCallback_adjust)
qed

lemma applySalaryAdjustments_heap_facts:
  assumes al: "allocated h salaries'"
    and r: "applySalaryAdjustments_heap h salaries' = (adjusted, h')"
  shows "length (arrays h) \<le> adjusted \<and> adjusted < length (arrays h')"
    and "length (arrays h' ! adjusted) = length (arrays h ! salaries')"
    and "records_of h' adjusted = applySalaryAdjustments (records_of h salaries')"
    and "records_of h' adjusted
           = map (\<lambda>s. hd (applySalaryAdjustments [s])) (records_of h salaries')"
    and "\<forall>r < length (objects h). objects h' ! r = objects h ! r"
    and "\<forall>b < length (arrays h). arrays h' ! b = arrays h ! b"
    and "records_of h' salaries' = records_of h salaries'"
    and "\<forall>i < length (arrays h ! salaries').
           arrays h' ! adjusted ! i = arrays h ! salaries' ! i
           \<or> length (objects h) \<le> arrays h' ! adjusted ! i"
proof -
  obtain a1 h1 where
    s1: "Array_map (adjustCallback (\<lambda>s. month s = 12) (\<lambda>s. s\<lparr>amount := amount s * 1.10\<rparr>))
           h salaries' = (a1, h1)"
    and s2: "Array_map (adjustCallback (\<lambda>s. month s \<ge> 6 \<and> month s \<le> 8)
                  (\<lambda>s. s\<lparr>amount := amount s * 0.95\<rparr>)) h1 a1 = (adjusted, h')"
    using applySalaryAdjustments_heap_steps [OF r] by blast
  have al1: "allocated h1 a1" by (rule Array_map_adjust_allocated [OF s1 al])
  note m1 = Array_map_adjust [OF s1 al]
  note m2 = Array_map_adjust [OF s2 al1]
  obtain rs1 where rs1: "arrays h1 = arrays h @ [rs1]" using m1(2) by blast
  obtain rs2 where rs2: "arrays h' = arrays h1 @ [rs2]" using m2(2) by blast
  obtain e1 where e1: "objects h1 = objects h @ e1" using m1(3) by blast
  obtain e2 where e2: "objects h' = objects h1 @ e2" using m2(3) by blast
  show "length (arrays h) \<le> adjusted \<and> adjusted < length (arrays h')"
    using m2(1) rs1 rs2 by simp
  show "length (arrays h' ! adjusted) = length (arrays h ! salaries')"
    using m1(4) m2(4) by simp
  show recs: "records_of h' adjusted = applySalaryAdjustments (records_of h salaries')"
    by (simp only: Array_map_adjust_records [OF s2 al1] Array_map_adjust_records [OF s1 al]
          applySalaryAdjustments_map)
  show "records_of h' adjusted
           = map (\<lambda>s. hd (applySalaryAdjustments [s])) (records_of h salaries')"
    unfolding recs by (simp add: applySalaryAdjustments_map)
  show old: "\<forall>r < length (objects h). objects h' ! r = objects h ! r"
    by (simp add: e1 e2 nth_append)
  show olda: "\<forall>b < length (arrays h). arrays h' ! b = arrays h ! b"
    by (simp add: rs1 rs2 nth_append)
  show "records_of h' salaries' = records_of h salaries'"
    using al old olda by (simp add: records_of_def allocated_def list_all_iff)
  show "\<forall>i < length (arrays h ! salaries').
           arrays h' ! adjusted ! i = arrays h ! salaries' ! i
           \<or> length (objects h) \<le> arrays h' ! adjusted ! i"
  proof (intro allI impI)
    fix i assume i: "i < length (arrays h ! salaries')"
    then have i1: "i < length (arrays h1 ! a1)" using m1(4) by simp
    from m1(5) i have
      "arrays h1 ! a1 ! i = arrays h ! salaries' ! i \<or> length (objects h) \<le> arrays h1 ! a1 ! i"
      by blast
    moreover from m2(5) i1 have
      "arrays h' ! adjusted ! i = arrays h1 ! a1 ! i \<or> length (objects h1) \<le> arrays h' ! adjusted ! i"
      by blast
    moreover have "length (objects h) \<le> length (objects h1)" using e1 by simp
    ultimately show "arrays h' ! adjusted ! i = arrays h ! salaries' ! i
           \<or> length (objects h) \<le> arrays h' ! adjusted ! i"
      by auto
  qed
qed


text \<open>
  C5.  On a heap in which the input array and its records are allocated, the adjustment
  returns an array that was not allocated before (a new list), of the same length as the
  input, whose record at each position is the adjusted record of the input at that
  position.  Every object and every array that existed before the call is unchanged
  afterwards, so the input array still holds the same records with the same contents.
  Each reference of the result is either the input's reference at that position (a record
  that needs no change is shared, not copied) or the address of an object allocated
  during the call: a changed amount is always written to a new record, never to an
  existing one.
\<close>

theorem adjustment_builds_new_list_and_records:
  assumes "allocated h salaries'"
    and "applySalaryAdjustments_heap h salaries' = (adjusted, h')"
  shows "length (arrays h) \<le> adjusted \<and> adjusted < length (arrays h')
    \<and> length (arrays h' ! adjusted) = length (arrays h ! salaries')
    \<and> records_of h' adjusted = applySalaryAdjustments (records_of h salaries')
    \<and> records_of h' adjusted
         = map (\<lambda>s. hd (applySalaryAdjustments [s])) (records_of h salaries')
    \<and> (\<forall>r < length (objects h). objects h' ! r = objects h ! r)
    \<and> (\<forall>b < length (arrays h). arrays h' ! b = arrays h ! b)
    \<and> records_of h' salaries' = records_of h salaries'
    \<and> (\<forall>i < length (arrays h ! salaries').
          arrays h' ! adjusted ! i = arrays h ! salaries' ! i
          \<or> length (objects h) \<le> arrays h' ! adjusted ! i)"
  using applySalaryAdjustments_heap_facts [OF assms] by blast

lemma heap3_adjusted:
  "applySalaryAdjustments_heap heap3 0 =
     (2, \<lparr>objects = salaries3 @ [\<lparr>amount = 6600, month = 12, year = 2024\<rparr>,
                                  \<lparr>amount = 5700, month = 7, year = 2024\<rparr>],
          arrays = [[0, 1, 2], [3, 1, 2], [3, 4, 2]]\<rparr>)"
  by (simp add: heap3_def salaries3_def applySalaryAdjustments_heap_def
        applyDecemberBonus_heap_def applySummerDeduction_heap_def Array_map_def
        decemberBonusCallback_def summerDeductionCallback_def new_object_def new_array_def
        upt_conv_Cons)

theorem adjustment_builds_new_list_and_records_witness:
  "allocated heap3 0
   \<and> fst (applySalaryAdjustments_heap heap3 0) = 2
   \<and> length (arrays (snd (applySalaryAdjustments_heap heap3 0)) ! 2) = 3
   \<and> records_of (snd (applySalaryAdjustments_heap heap3 0)) 2
        = applySalaryAdjustments salaries3
   \<and> objects (snd (applySalaryAdjustments_heap heap3 0)) ! 0 = salaries3 ! 0
   \<and> objects (snd (applySalaryAdjustments_heap heap3 0)) ! 1 = salaries3 ! 1
   \<and> arrays (snd (applySalaryAdjustments_heap heap3 0)) ! 0 = [0, 1, 2]
   \<and> records_of (snd (applySalaryAdjustments_heap heap3 0)) 0 = salaries3"
proof -
  have al: "allocated heap3 0"
    by (simp add: allocated_def heap3_def salaries3_def)
  have r: "applySalaryAdjustments_heap heap3 0
             = (2, snd (applySalaryAdjustments_heap heap3 0))"
    by (simp add: heap3_adjusted)
  have c: "records_of heap3 0 = salaries3" "length (arrays heap3 ! 0) = 3"
    "(0::nat) < length (objects heap3)" "(1::nat) < length (objects heap3)"
    "(0::nat) < length (arrays heap3)"
    "objects heap3 ! 0 = salaries3 ! 0" "objects heap3 ! 1 = salaries3 ! 1"
    "arrays heap3 ! 0 = [0, 1, 2]"
    by (simp_all add: records_of_def heap3_def salaries3_def)
  note t = adjustment_builds_new_list_and_records [OF al r]
  from t have old: "\<forall>r < length (objects heap3).
      objects (snd (applySalaryAdjustments_heap heap3 0)) ! r = objects heap3 ! r"
    and olda: "\<forall>b < length (arrays heap3).
      arrays (snd (applySalaryAdjustments_heap heap3 0)) ! b = arrays heap3 ! b"
    by blast+
  show ?thesis
    using al t old [rule_format, OF c(3)] old [rule_format, OF c(4)]
      olda [rule_format, OF c(5)] c(1,2,6,7,8) heap3_adjusted
    by simp
qed

section \<open>Properties of the retry executor\<close>

















lemma execute_loop_invariant:
  assumes "\<And>x. P x \<Longrightarrow> P (snd (fn x))"
    and "\<And>a err x. P x \<Longrightarrow> P (snd (onRetry config a err x))"
    and "P s"
  shows "P (fst (snd (execute_loop fn config attempt delay lastError s tr)))"
  using assms(3)
proof (induction "nat (maxAttempts config + 1 - attempt)"
         arbitrary: attempt delay lastError s tr)
  case 0
  then have "\<not> attempt \<le> maxAttempts config" by simp
  with 0 show ?case
    by (subst execute_loop.simps) simp
next
  case (Suc k)
  then have le: "attempt \<le> maxAttempts config" by simp
  obtain out s1 where f: "fn s = (out, s1)" by (cases "fn s")
  have p1: "P s1" using assms(1) [OF Suc.prems] f by simp
  show ?case
  proof (cases out)
    case (Inr v)
    then show ?thesis
      using le f p1 by (subst execute_loop.simps) simp
  next
    case (Inl e)
    show ?thesis
    proof (cases "attempt = maxAttempts config")
      case True
      then show ?thesis
        using le f Inl p1 by (subst execute_loop.simps) (simp split: sum.splits)
    next
      case False
      obtain c s2 where cb: "onRetry config attempt e s1 = (c, s2)"
        by (cases "onRetry config attempt e s1")
      have p2: "P s2" using assms(2) [OF p1, of attempt e] cb by simp
      have k: "k = nat (maxAttempts config + 1 - (attempt + 1))" using Suc.hyps(2) by simp
      show ?thesis
      proof (cases c)
        case None
        from Suc.hyps(1) [OF k p2]
        show ?thesis
          using le f Inl False cb None by (subst execute_loop.simps) simp
      next
        case (Some t)
        then show ?thesis
          using le f Inl False cb p2 by (subst execute_loop.simps) simp
      qed
    qed
  qed
qed








text \<open>
  The callback runs in the state the operation works on, and may change it: an operation
  that would fail every time when left alone succeeds on its second attempt once the
  callback has brought its connection up.
\<close>

lemma callback_changing_state_example:
  "outcomes query_when_connected False 0 = Inl (InternalServerError ''connection lost'')
   \<and> outcomes query_when_connected False 1 = Inl (InternalServerError ''connection lost'')
   \<and> outcomes query_when_connected False 2 = Inl (InternalServerError ''connection lost'')
   \<and> execute query_when_connected ((attempts 3)\<lparr>opt_onRetry := Some reconnecting_onRetry\<rparr>)
         False
       = (Inr ''row'', True,
          [OnRetry 1 (InternalServerError ''connection lost''), Delay 1000,
           SucceededOnAttempt 2])"
  by (simp add: outcomes_def query_when_connected_def reconnecting_onRetry_def attempts_def
        execute_def spread_options_def DEFAULT_OPTIONS_def execute_loop.simps numeral_2_eq_2)

section \<open>Properties of the orchestrator\<close>

lemma wrapDatabaseQuery_cache:
  assumes "wrapDatabaseQuery (getUserWithSalaries key) w = (r, w1, tr)"
  shows "cache w1 = cache w" and "clock w1 = clock w" and "recordStore w1 = recordStore w"
proof -
  let ?P = "\<lambda>x. cache x = cache w \<and> clock x = clock w \<and> recordStore x = recordStore w"
  have "?P (fst (snd (wrapDatabaseQuery (getUserWithSalaries key) w)))"
    unfolding wrapDatabaseQuery_def execute_def Let_def
    by (rule execute_loop_invariant)
       (simp_all add: getUserWithSalaries_def spread_options_def databaseQuery_onRetry_def
          split: sum.splits)
  then show "cache w1 = cache w" and "clock w1 = clock w" and "recordStore w1 = recordStore w"
    by (simp_all add: assms)
qed

lemma processEmployeeStatus_inactive:
  "\<not> isActive e \<Longrightarrow>
     processEmployeeStatus now e = (Some (NotAcceptableError ''User is not active''), e)"
  by (simp add: processEmployeeStatus_def isUserActive_def)

lemma processEmployeeStatus_insufficient:
  "isActive e \<Longrightarrow> length (salaries e) < 3 \<Longrightarrow>
     processEmployeeStatus now e
       = (Some (UnprocessableEntityError
            ''Insufficient salary data (minimum 3 records required)''), e)"
  by (simp add: processEmployeeStatus_def isUserActive_def hasSufficientData_def)

lemma processEmployeeStatus_failure_keeps_object:
  "processEmployeeStatus now e = (Some err, e') \<Longrightarrow> e' = e"
  by (auto simp: processEmployeeStatus_def Let_def split: if_splits)

lemma getEmployeeStatus_hit:
  assumes "validateNationalNumber key"
    and "CacheHandler_get (cache w) (getEmployeeKey key) = Some v"
  shows "getEmployeeStatus key w = (Inr v, w)"
  using assms by (simp add: getEmployeeStatus_def)

lemma getEmployeeStatus_miss:
  assumes "validateNationalNumber key"
    and "CacheHandler_get (cache w) (getEmployeeKey key) = None"
    and "wrapDatabaseQuery (getUserWithSalaries key) w = (fetched, w1, tr)"
  shows "getEmployeeStatus key w =
    (case fetched of
       Inl err \<Rightarrow> (Inl err, w1)
     | Inr None \<Rightarrow>
         (Inl (NotFoundError (''User with NationalNumber '' @ [CHR 0x27] @ key @ [CHR 0x27]
                 @ '' not found'')), w1)
     | Inr (Some (user, salaries')) \<Rightarrow>
         (case processEmployeeStatus (clock w1)
                 ((EmpInfo_new (user_id user) (user_username user) (user_nationalNumber user)
                     (user_email user) (user_phone user) (user_isActive user) (clock w1))
                  \<lparr>salaries := salaries'\<rparr>) of
            (Some err, empInfo') \<Rightarrow> (Inl err, w1)
          | (None, processedEmpInfo) \<Rightarrow>
              (Inr (toResponse processedEmpInfo),
               w1\<lparr>cache := CacheHandler_set (cache w1) (getEmployeeKey key)
                               (toResponse processedEmpInfo) (Some 3600)\<rparr>)))"
  using assms
  by (simp add: getEmployeeStatus_def Let_def split: sum.splits option.splits prod.splits)

lemma validateNationalNumber_examples:
  "validateNationalNumber ''NAT1001''" "validateNationalNumber ''NAT1003''"
  "validateNationalNumber ''NAT1005''" "validateNationalNumber ''NOT9999''"
  by (simp_all add: validateNationalNumber_def trim_def isWhiteSpace_def
        nationalNumberRegex_test_def isLetter_def isDigit_def)

lemma world_miss_get:
  "CacheHandler_get (cache world_miss) (getEmployeeKey key) = None"
  by (simp add: world_miss_def CacheHandler_get_def)

lemma world_miss_fetch:
  "wrapDatabaseQuery (getUserWithSalaries key) world_miss
     = (demo_store 0 key, world_miss\<lparr>invocations := 1\<rparr>, [])"
proof (cases "demo_store 0 key")
  case (Inl e)
  then show ?thesis by (simp add: demo_store_def split: if_splits)
next
  case (Inr v)
  then show ?thesis
    by (simp add: wrapDatabaseQuery_def execute_def spread_options_def DEFAULT_OPTIONS_def
          databaseQuery_onRetry_def execute_loop.simps getUserWithSalaries_def world_miss_def)
qed

lemma world_hit_get:
  "CacheHandler_get (cache world_hit) (getEmployeeKey ''NAT1001'') = Some response1"
  by (simp add: world_hit_def CacheHandler_get_def getEmployeeKey_def)

text \<open>
  C6.  When the key passes format validation and the cache layer returns a value for
  \<open>employee:\<close>key, the request returns exactly that value and leaves the world as it
  was: the Record Store is not invoked (its invocation count is unchanged, and the result
  is the same whatever the Record Store would do), nothing is validated or computed again,
  and nothing is written.
\<close>

theorem cache_hit_bypasses_record_store:
  assumes "validateNationalNumber key"
    and "CacheHandler_get (cache w) (getEmployeeKey key) = Some cachedData"
  shows "getEmployeeStatus key w = (Inr cachedData, w)
    \<and> invocations (snd (getEmployeeStatus key w)) = invocations w
    \<and> (\<forall>store. getEmployeeStatus key (w\<lparr>recordStore := store\<rparr>)
                  = (Inr cachedData, w\<lparr>recordStore := store\<rparr>))"
proof -
  have "getEmployeeStatus key (w\<lparr>recordStore := store\<rparr>)
          = (Inr cachedData, w\<lparr>recordStore := store\<rparr>)" for store
    using assms by (intro getEmployeeStatus_hit) simp_all
  then show ?thesis
    using getEmployeeStatus_hit [OF assms] by simp
qed

theorem cache_hit_bypasses_record_store_witness:
  "validateNationalNumber ''NAT1001''
   \<and> CacheHandler_get (cache world_hit) (getEmployeeKey ''NAT1001'') = Some response1
   \<and> getEmployeeStatus ''NAT1001'' world_hit = (Inr response1, world_hit)
   \<and> invocations (snd (getEmployeeStatus ''NAT1001'' world_hit)) = invocations world_hit"
  using cache_hit_bypasses_record_store [OF validateNationalNumber_examples(1) world_hit_get]
    validateNationalNumber_examples(1) world_hit_get
  by simp

text \<open>
  C9.  For a request with a valid key that misses the cache, so that the Record Store is
  queried: a failed fetch fails the request with the failure of the fetch; an absent
  record fails with NotFound (404); a record that is not active fails with Inactive (406,
  whatever its salary history); an active record with fewer than three salary records
  fails with InsufficientData (422).  The checks of activity and history come before every
  computation: when a check fails, the \<^verbatim>\<open>EmpInfo\<close> object is as the constructor and
  \<^verbatim>\<open>setSalaries\<close> left it, with no adjusted salaries, no total, no tax, no average and no
  status.
\<close>

theorem fetch_then_activity_then_history:
  assumes "validateNationalNumber key"
    and "CacheHandler_get (cache w) (getEmployeeKey key) = None"
    and "wrapDatabaseQuery (getUserWithSalaries key) w = (fetched, w1, tr)"
  shows "(\<forall>err. fetched = Inl err \<longrightarrow> getEmployeeStatus key w = (Inl err, w1))
    \<and> (fetched = Inr None \<longrightarrow>
          getEmployeeStatus key w
            = (Inl (NotFoundError (''User with NationalNumber '' @ [CHR 0x27] @ key
                      @ [CHR 0x27] @ '' not found'')), w1))
    \<and> (\<forall>user sals. fetched = Inr (Some (user, sals)) \<and> \<not> user_isActive user \<longrightarrow>
          getEmployeeStatus key w = (Inl (NotAcceptableError ''User is not active''), w1))
    \<and> (\<forall>user sals. fetched = Inr (Some (user, sals)) \<and> user_isActive user \<and> length sals < 3
          \<longrightarrow> getEmployeeStatus key w
                = (Inl (UnprocessableEntityError
                     ''Insufficient salary data (minimum 3 records required)''), w1))
    \<and> (\<forall>(user::User) sals now. \<not> user_isActive user \<or> length sals < 3 \<longrightarrow>
          (\<exists>err. processEmployeeStatus now
                   ((EmpInfo_new (user_id user) (user_username user)
                       (user_nationalNumber user) (user_email user) (user_phone user)
                       (user_isActive user) now)\<lparr>salaries := sals\<rparr>)
                 = (Some err,
                    \<lparr>emp_id = user_id user, username = user_username user,
                     nationalNumber = user_nationalNumber user, email = user_email user,
                     phone = user_phone user, isActive = user_isActive user,
                     salaries = sals, adjustedSalaries = [], totalSalary = 0,
                     averageSalary = 0, highestSalary = 0, taxAmount = 0, status = None,
                     lastUpdated = now\<rparr>)))
    \<and> statusCode (NotFoundError m1) = Some 404
    \<and> statusCode (NotAcceptableError m2) = Some 406
    \<and> statusCode (UnprocessableEntityError m3) = Some 422"
proof -
  note m = getEmployeeStatus_miss [OF assms]
  have 1: "\<forall>err. fetched = Inl err \<longrightarrow> getEmployeeStatus key w = (Inl err, w1)"
    using m by simp
  have 2: "fetched = Inr None \<longrightarrow>
          getEmployeeStatus key w
            = (Inl (NotFoundError (''User with NationalNumber '' @ [CHR 0x27] @ key
                      @ [CHR 0x27] @ '' not found'')), w1)"
    using m by simp
  have 3: "\<forall>user sals. fetched = Inr (Some (user, sals)) \<and> \<not> user_isActive user \<longrightarrow>
          getEmployeeStatus key w = (Inl (NotAcceptableError ''User is not active''), w1)"
    using m by (simp add: processEmployeeStatus_inactive EmpInfo_new_def)
  have 4: "\<forall>user sals. fetched = Inr (Some (user, sals)) \<and> user_isActive user \<and> length sals < 3
          \<longrightarrow> getEmployeeStatus key w
                = (Inl (UnprocessableEntityError
                     ''Insufficient salary data (minimum 3 records required)''), w1)"
    using m by (simp add: processEmployeeStatus_insufficient EmpInfo_new_def)
  have 5: "\<forall>(user::User) sals now. \<not> user_isActive user \<or> length sals < 3 \<longrightarrow>
          (\<exists>err. processEmployeeStatus now
                   ((EmpInfo_new (user_id user) (user_username user)
                       (user_nationalNumber user) (user_email user) (user_phone user)
                       (user_isActive user) now)\<lparr>salaries := sals\<rparr>)
                 = (Some err,
                    \<lparr>emp_id = user_id user, username = user_username user,
                     nationalNumber = user_nationalNumber user, email = user_email user,
                     phone = user_phone user, isActive = user_isActive user,
                     salaries = sals, adjustedSalaries = [], totalSalary = 0,
                     averageSalary = 0, highestSalary = 0, taxAmount = 0, status = None,
                     lastUpdated = now\<rparr>))"
    by (auto simp: processEmployeeStatus_def EmpInfo_new_def isUserActive_def
          hasSufficientData_def)
  show ?thesis
    using 1 2 3 4 5 by simp
qed

lemma world_db_down_fetch:
  "wrapDatabaseQuery (getUserWithSalaries key) world_db_down
     = (Inl (InternalServerError ''Database error while fetching user''),
        world_db_down\<lparr>invocations := 3\<rparr>,
        [OnRetry 1 (InternalServerError ''Database error while fetching user''), Delay 500,
         OnRetry 2 (InternalServerError ''Database error while fetching user''), Delay 1000,
         AllAttemptsFailed 3 (InternalServerError ''Database error while fetching user'')])"
  by (simp add: wrapDatabaseQuery_def execute_def spread_options_def DEFAULT_OPTIONS_def
        databaseQuery_onRetry_def execute_loop.simps getUserWithSalaries_def world_db_down_def
        failing_store_def)

lemma world_db_down_get:
  "CacheHandler_get (cache world_db_down) (getEmployeeKey key) = None"
  by (simp add: world_db_down_def CacheHandler_get_def)

theorem fetch_then_activity_then_history_witness:
  "getEmployeeStatus ''NAT1001'' world_db_down
     = (Inl (InternalServerError ''Database error while fetching user''),
        world_db_down\<lparr>invocations := 3\<rparr>)
   \<and> getEmployeeStatus ''NOT9999'' world_miss
       = (Inl (NotFoundError (''User with NationalNumber '' @ [CHR 0x27] @ ''NOT9999''
               @ [CHR 0x27] @ '' not found'')), world_miss\<lparr>invocations := 1\<rparr>)
   \<and> getEmployeeStatus ''NAT1003'' world_miss
       = (Inl (NotAcceptableError ''User is not active''), world_miss\<lparr>invocations := 1\<rparr>)
   \<and> getEmployeeStatus ''NAT1005'' world_miss
       = (Inl (UnprocessableEntityError
            ''Insufficient salary data (minimum 3 records required)''),
          world_miss\<lparr>invocations := 1\<rparr>)
   \<and> (\<exists>err. processEmployeeStatus ''2024-06-01T00:00:00.000Z''
               ((EmpInfo_new (user_id user3) (user_username user3) (user_nationalNumber user3)
                   (user_email user3) (user_phone user3) (user_isActive user3)
                   ''2024-06-01T00:00:00.000Z'')\<lparr>salaries := salaries3\<rparr>)
             = (Some err,
                \<lparr>emp_id = ''3'', username = ''msmith'', nationalNumber = ''NAT1003'',
                 email = ''msmith@example.com'', phone = ''0790000003'', isActive = False,
                 salaries = salaries3, adjustedSalaries = [], totalSalary = 0,
                 averageSalary = 0, highestSalary = 0, taxAmount = 0, status = None,
                 lastUpdated = ''2024-06-01T00:00:00.000Z''\<rparr>))"
proof -
  have d: "demo_store 0 ''NOT9999'' = Inr None"
    "demo_store 0 ''NAT1003'' = Inr (Some (user3, salaries3))"
    "demo_store 0 ''NAT1005'' = Inr (Some (user5, take 2 salaries3))"
    by (simp_all add: demo_store_def)
  have u: "\<not> user_isActive user3" "user_isActive user5" "length (take 2 salaries3) < 3"
    by (simp_all add: user3_def user5_def salaries3_def)
  note a = fetch_then_activity_then_history
             [OF validateNationalNumber_examples(4) world_miss_get world_miss_fetch]
  note b = fetch_then_activity_then_history
             [OF validateNationalNumber_examples(2) world_miss_get world_miss_fetch]
  note c = fetch_then_activity_then_history
             [OF validateNationalNumber_examples(3) world_miss_get world_miss_fetch]
  note e = fetch_then_activity_then_history
             [OF validateNationalNumber_examples(1) world_db_down_get world_db_down_fetch]
  from e have 0: "getEmployeeStatus ''NAT1001'' world_db_down
     = (Inl (InternalServerError ''Database error while fetching user''),
        world_db_down\<lparr>invocations := 3\<rparr>)"
    by blast
  from a d(1) have 1: "getEmployeeStatus ''NOT9999'' world_miss
     = (Inl (NotFoundError (''User with NationalNumber '' @ [CHR 0x27] @ ''NOT9999''
               @ [CHR 0x27] @ '' not found'')), world_miss\<lparr>invocations := 1\<rparr>)"
    by blast
  from b d(2) u(1) have 2: "getEmployeeStatus ''NAT1003'' world_miss
       = (Inl (NotAcceptableError ''User is not active''), world_miss\<lparr>invocations := 1\<rparr>)"
    by blast
  from c d(3) u(2,3) have 3: "getEmployeeStatus ''NAT1005'' world_miss
       = (Inl (UnprocessableEntityError
            ''Insufficient salary data (minimum 3 records required)''),
          world_miss\<lparr>invocations := 1\<rparr>)"
    by blast
  from b u(1) have "\<exists>err. processEmployeeStatus ''2024-06-01T00:00:00.000Z''
               ((EmpInfo_new (user_id user3) (user_username user3) (user_nationalNumber user3)
                   (user_email user3) (user_phone user3) (user_isActive user3)
                   ''2024-06-01T00:00:00.000Z'')\<lparr>salaries := salaries3\<rparr>)
             = (Some err,
                \<lparr>emp_id = user_id user3, username = user_username user3,
                 nationalNumber = user_nationalNumber user3, email = user_email user3,
                 phone = user_phone user3, isActive = user_isActive user3,
                 salaries = salaries3, adjustedSalaries = [], totalSalary = 0,
                 averageSalary = 0, highestSalary = 0, taxAmount = 0, status = None,
                 lastUpdated = ''2024-06-01T00:00:00.000Z''\<rparr>)"
    by blast
  moreover have "user_id user3 = ''3''" "user_username user3 = ''msmith''"
    "user_nationalNumber user3 = ''NAT1003''" "user_email user3 = ''msmith@example.com''"
    "user_phone user3 = ''0790000003''" "user_isActive user3 = False"
    by (simp_all add: user3_def)
  ultimately have 4: "\<exists>err. processEmployeeStatus ''2024-06-01T00:00:00.000Z''
               ((EmpInfo_new (user_id user3) (user_username user3) (user_nationalNumber user3)
                   (user_email user3) (user_phone user3) (user_isActive user3)
                   ''2024-06-01T00:00:00.000Z'')\<lparr>salaries := salaries3\<rparr>)
             = (Some err,
                \<lparr>emp_id = ''3'', username = ''msmith'', nationalNumber = ''NAT1003'',
                 email = ''msmith@example.com'', phone = ''0790000003'', isActive = False,
                 salaries = salaries3, adjustedSalaries = [], totalSalary = 0,
                 averageSalary = 0, highestSalary = 0, taxAmount = 0, status = None,
                 lastUpdated = ''2024-06-01T00:00:00.000Z''\<rparr>)"
    by simp
  show ?thesis using 0 1 2 3 4 by blast
qed

lemma CacheHandler_set_available:
  assumes "isConnected c" and "client c = Some r" and "responsive r"
  shows "CacheHandler_set c k v (Some 3600)
           = c\<lparr>client := Some (r\<lparr>entries := (entries r)(k \<mapsto> (3600, v))\<rparr>)\<rparr>"
    and "CacheHandler_get (CacheHandler_set c k v (Some 3600)) k = Some v"
  using assms by (simp_all add: CacheHandler_set_def CacheHandler_get_def)

lemma CacheHandler_set_unavailable:
  assumes "\<not> (isConnected c \<and> (\<exists>r. client c = Some r \<and> responsive r))"
  shows "CacheHandler_set c k v ttl = c"
  using assms by (auto simp: CacheHandler_set_def split: option.splits)

lemma getEmployeeStatus_error_keeps_cache:
  assumes "getEmployeeStatus key w = (Inl err, w')"
  shows "cache w' = cache w"
proof (cases "validateNationalNumber key")
  case False
  then show ?thesis using assms by (simp add: getEmployeeStatus_def)
next
  case True
  show ?thesis
  proof (cases "CacheHandler_get (cache w) (getEmployeeKey key)")
    case (Some v)
    then show ?thesis using assms getEmployeeStatus_hit [OF True Some] by simp
  next
    case None
    obtain fetched w1 tr where
      f: "wrapDatabaseQuery (getUserWithSalaries key) w = (fetched, w1, tr)"
      by (metis prod.exhaust)
    have "w' = w1"
      using assms unfolding getEmployeeStatus_miss [OF True None f]
      by (auto split: sum.splits option.splits prod.splits)
    then show ?thesis
      using wrapDatabaseQuery_cache(1) [OF f] by simp
  qed
qed

lemma getEmployeeStatus_success:
  assumes "getEmployeeStatus key w = (Inr response, w')"
  shows "(CacheHandler_get (cache w) (getEmployeeKey key) = Some response \<and> w' = w)
    \<or> (CacheHandler_get (cache w) (getEmployeeKey key) = None
        \<and> cache w' = CacheHandler_set (cache w) (getEmployeeKey key) response (Some 3600)
        \<and> (\<exists>user sals processed.
              fst (wrapDatabaseQuery (getUserWithSalaries key) w) = Inr (Some (user, sals))
              \<and> processEmployeeStatus (clock w)
                ((EmpInfo_new (user_id user) (user_username user) (user_nationalNumber user)
                    (user_email user) (user_phone user) (user_isActive user) (clock w))
                 \<lparr>salaries := sals\<rparr>) = (None, processed)
              \<and> response = toResponse processed))"
proof -
  have v: "validateNationalNumber key"
    using assms by (auto simp: getEmployeeStatus_def split: if_splits)
  show ?thesis
  proof (cases "CacheHandler_get (cache w) (getEmployeeKey key)")
    case (Some v')
    then show ?thesis using assms getEmployeeStatus_hit [OF v Some] by simp
  next
    case None
    obtain fetched w1 tr where
      f: "wrapDatabaseQuery (getUserWithSalaries key) w = (fetched, w1, tr)"
      by (metis prod.exhaust)
    note c = wrapDatabaseQuery_cache [OF f]
    note eq = assms [unfolded getEmployeeStatus_miss [OF v None f]]
    show ?thesis
    proof (cases fetched)
      case (Inl e)
      then show ?thesis using eq by simp
    next
      case (Inr found)
      show ?thesis
      proof (cases found)
        case None
        then show ?thesis using eq Inr by simp
      next
        case (Some p)
        obtain user sals where p: "p = (user, sals)" by (cases p)
        obtain res processed where
          pe: "processEmployeeStatus (clock w1)
                 ((EmpInfo_new (user_id user) (user_username user) (user_nationalNumber user)
                     (user_email user) (user_phone user) (user_isActive user) (clock w1))
                  \<lparr>salaries := sals\<rparr>) = (res, processed)"
          by (metis prod.exhaust)
        show ?thesis
        proof (cases res)
          case (Some e)
          then show ?thesis using eq Inr \<open>found = Some p\<close> p pe by simp
        next
          case None': None
          have rw: "toResponse processed = response
                    \<and> w1\<lparr>cache := CacheHandler_set (cache w1) (getEmployeeKey key)
                                   (toResponse processed) (Some 3600)\<rparr> = w'"
            using eq Inr \<open>found = Some p\<close> p pe None' by auto
          have r: "response = toResponse processed"
            using rw [THEN conjunct1] by (rule sym)
          have w': "w' = w1\<lparr>cache := CacheHandler_set (cache w1) (getEmployeeKey key)
                                   (toResponse processed) (Some 3600)\<rparr>"
            using rw [THEN conjunct2] by (rule sym)
          have cw: "cache w' = CacheHandler_set (cache w) (getEmployeeKey key) response (Some 3600)"
            using r w' c(1) by simp
          have "fst (wrapDatabaseQuery (getUserWithSalaries key) w) = Inr (Some (user, sals))
                \<and> processEmployeeStatus (clock w)
                 ((EmpInfo_new (user_id user) (user_username user) (user_nationalNumber user)
                     (user_email user) (user_phone user) (user_isActive user) (clock w))
                  \<lparr>salaries := sals\<rparr>) = (None, processed)
                \<and> response = toResponse processed"
            using pe None' c(2) r f Inr \<open>found = Some p\<close> p by simp
          then have ex: "\<exists>user sals processed.
              fst (wrapDatabaseQuery (getUserWithSalaries key) w) = Inr (Some (user, sals))
              \<and> processEmployeeStatus (clock w)
                ((EmpInfo_new (user_id user) (user_username user) (user_nationalNumber user)
                    (user_email user) (user_phone user) (user_isActive user) (clock w))
                 \<lparr>salaries := sals\<rparr>) = (None, processed)
              \<and> response = toResponse processed"
            by blast
          show ?thesis
            by (rule disjI2) (intro conjI None cw ex)
        qed
      qed
    qed
  qed
qed

text \<open>
  C7 (as amended).  A request that ends with an error of any kind (InvalidInput,
  NotFound, Inactive, InsufficientData, or the failure of the Record Store) leaves the
  cache as it was.  A request that returns a response either found it in the cache, and
  then changes nothing, or missed the cache, computed the response from a record that
  passed every check, and handed this response, the one it returns, to the cache layer
  under \<open>employee:\<close>key with a TTL of 3600 seconds.  The cache layer stores the entry when
  it is connected and the Redis command succeeds, and changes nothing otherwise.
\<close>

theorem cache_written_only_after_success:
  "(getEmployeeStatus key w = (Inl err, w') \<longrightarrow> cache w' = cache w)
   \<and> (getEmployeeStatus key w = (Inr response, w') \<longrightarrow>
        (CacheHandler_get (cache w) (getEmployeeKey key) = Some response \<and> w' = w)
        \<or> (CacheHandler_get (cache w) (getEmployeeKey key) = None
            \<and> cache w' = CacheHandler_set (cache w) (getEmployeeKey key) response (Some 3600)
            \<and> (\<exists>user sals processed.
                  fst (wrapDatabaseQuery (getUserWithSalaries key) w) = Inr (Some (user, sals))
                  \<and> processEmployeeStatus (clock w)
                    ((EmpInfo_new (user_id user) (user_username user)
                        (user_nationalNumber user) (user_email user) (user_phone user)
                        (user_isActive user) (clock w))\<lparr>salaries := sals\<rparr>)
                      = (None, processed)
                  \<and> response = toResponse processed)))
   \<and> (isConnected c \<and> client c = Some r \<and> responsive r \<longrightarrow>
        CacheHandler_set c k v (Some 3600)
          = c\<lparr>client := Some (r\<lparr>entries := (entries r)(k \<mapsto> (3600, v))\<rparr>)\<rparr>
        \<and> CacheHandler_get (CacheHandler_set c k v (Some 3600)) k = Some v)
   \<and> (\<not> (isConnected c \<and> (\<exists>r. client c = Some r \<and> responsive r)) \<longrightarrow>
        CacheHandler_set c k v ttl = c)
   \<and> getEmployeeKey key = ''employee:'' @ key"
  using getEmployeeStatus_error_keeps_cache [of key w err w']
    getEmployeeStatus_success [of key w response w']
    CacheHandler_set_available [of c r k v]
    CacheHandler_set_unavailable [of c k v ttl]
    getEmployeeKey_def [of key]
  by blast

lemma world_miss_NAT1001:
  "getEmployeeStatus ''NAT1001'' world_miss
     = (Inr response1,
        world_miss\<lparr>invocations := 1,
          cache := CacheHandler_set (cache world_miss) (getEmployeeKey ''NAT1001'') response1
                     (Some 3600)\<rparr>)"
proof -
  have d: "demo_store 0 ''NAT1001'' = Inr (Some (user1, salaries3))"
    by (simp add: demo_store_def)
  have p: "processEmployeeStatus (clock world_miss)
             ((EmpInfo_new (user_id user1) (user_username user1) (user_nationalNumber user1)
                 (user_email user1) (user_phone user1) (user_isActive user1) (clock world_miss))
              \<lparr>salaries := salaries3\<rparr>)
           = (None,
              \<lparr>emp_id = ''1'', username = ''jdoe'', nationalNumber = ''NAT1001'',
               email = ''jdoe@example.com'', phone = ''0790000001'', isActive = True,
               salaries = salaries3,
               adjustedSalaries = [\<lparr>amount = 6600, month = 12, year = 2024\<rparr>,
                                   \<lparr>amount = 5700, month = 7, year = 2024\<rparr>,
                                   \<lparr>amount = 6000, month = 1, year = 2024\<rparr>],
               totalSalary = 18300, averageSalary = 5673, highestSalary = 6600,
               taxAmount = 1281, status = Some GREEN,
               lastUpdated = ''2024-06-01T00:00:00.000Z''\<rparr>)"
    by (simp add: processEmployeeStatus_def user1_def world_miss_def EmpInfo_new_def salaries3_def
        isUserActive_def hasSufficientData_def applySalaryAdjustments_def
        applyDecemberBonus_def applySummerDeduction_def calculateTotalSalary_def
        calculateTax_def calculateAverageSalary_def findHighestSalary_def determineStatus_def)
  show ?thesis
    unfolding getEmployeeStatus_miss
                [OF validateNationalNumber_examples(1) world_miss_get world_miss_fetch] d
    by (simp add: p) (simp add: toResponse_def response1_def)
qed

theorem cache_written_only_after_success_witness:
  "fst (getEmployeeStatus ''NAT1001'' world_miss) = Inr response1
   \<and> CacheHandler_get (cache (snd (getEmployeeStatus ''NAT1001'' world_miss)))
        (getEmployeeKey ''NAT1001'') = Some response1
   \<and> cache (snd (getEmployeeStatus ''NAT1001'' world_miss))
       = (cache world_miss)
           \<lparr>client := Some \<lparr>entries = [getEmployeeKey ''NAT1001'' \<mapsto> (3600, response1)],
                              responsive = True\<rparr>\<rparr>
   \<and> fst (getEmployeeStatus ''NAT1003'' world_miss)
       = Inl (NotAcceptableError ''User is not active'')
   \<and> cache (snd (getEmployeeStatus ''NAT1003'' world_miss)) = cache world_miss
   \<and> CacheHandler_set (cache world_down) (getEmployeeKey ''NAT1001'') response1 (Some 3600)
       = cache world_down"
proof -
  have ok: "getEmployeeStatus ''NAT1001'' world_miss
              = (Inr response1, snd (getEmployeeStatus ''NAT1001'' world_miss))"
    by (simp add: world_miss_NAT1001)
  have c: "isConnected (cache world_miss)
           \<and> client (cache world_miss) = Some \<lparr>entries = Map.empty, responsive = True\<rparr>
           \<and> responsive \<lparr>entries = Map.empty, responsive = True\<rparr>"
    by (simp add: world_miss_def)
  have down: "\<not> (isConnected (cache world_down)
                  \<and> (\<exists>r. client (cache world_down) = Some r \<and> responsive r))"
    by (simp add: world_down_def)
  have bad: "getEmployeeStatus ''NAT1003'' world_miss
               = (Inl (NotAcceptableError ''User is not active''),
                  snd (getEmployeeStatus ''NAT1003'' world_miss))"
    by (simp add: getEmployeeStatus_miss
          [OF validateNationalNumber_examples(2) world_miss_get world_miss_fetch]
          demo_store_def user3_def EmpInfo_new_def processEmployeeStatus_inactive)
  note t1 = cache_written_only_after_success
              [where key = "''NAT1001''" and w = world_miss and response = response1
                 and w' = "snd (getEmployeeStatus ''NAT1001'' world_miss)"
                 and c = "cache world_miss"
                 and r = "\<lparr>entries = Map.empty, responsive = True\<rparr>"
                 and k = "getEmployeeKey ''NAT1001''" and v = response1]
  note t2 = cache_written_only_after_success
              [where key = "''NAT1003''" and w = world_miss
                 and err = "NotAcceptableError ''User is not active''"
                 and w' = "snd (getEmployeeStatus ''NAT1003'' world_miss)"]
  note t3 = cache_written_only_after_success
              [where c = "cache world_down" and k = "getEmployeeKey ''NAT1001''"
                 and v = response1 and ttl = "Some 3600"]
  from t1 ok world_miss_get [of "''NAT1001''"]
  have w: "cache (snd (getEmployeeStatus ''NAT1001'' world_miss))
             = CacheHandler_set (cache world_miss) (getEmployeeKey ''NAT1001'') response1
                 (Some 3600)"
    by (metis option.distinct(1))
  from t1 c
  have "CacheHandler_set (cache world_miss) (getEmployeeKey ''NAT1001'') response1 (Some 3600)
          = (cache world_miss)
              \<lparr>client := Some (\<lparr>entries = Map.empty, responsive = True\<rparr>
                   \<lparr>entries := (entries \<lparr>entries = Map.empty, responsive = True\<rparr>)
                      (getEmployeeKey ''NAT1001'' \<mapsto> (3600, response1))\<rparr>)\<rparr>"
    and g: "CacheHandler_get
              (CacheHandler_set (cache world_miss) (getEmployeeKey ''NAT1001'') response1
                 (Some 3600)) (getEmployeeKey ''NAT1001'') = Some response1"
    by blast+
  then have s: "CacheHandler_set (cache world_miss) (getEmployeeKey ''NAT1001'') response1
                  (Some 3600)
             = (cache world_miss)
                 \<lparr>client := Some \<lparr>entries = [getEmployeeKey ''NAT1001'' \<mapsto> (3600, response1)],
                                    responsive = True\<rparr>\<rparr>"
    by simp
  from t2 bad have k: "cache (snd (getEmployeeStatus ''NAT1003'' world_miss)) = cache world_miss"
    by blast
  from t3 down
  have u: "CacheHandler_set (cache world_down) (getEmployeeKey ''NAT1001'') response1 (Some 3600)
             = cache world_down"
    by blast
  show ?thesis
    using ok bad w s g k u by (metis fst_conv)
qed

text \<open>
  The claim as stated fails where it says that a successful request writes the entry.
  With the cache disconnected the request for NAT1001 succeeds and the cache is as it was,
  with no entry.  With the entry present the request returns it and writes nothing: the
  entry keeps the 120 seconds it had left, and the Record Store, which is down, is not
  asked.
\<close>

theorem successful_request_without_write_counterexample:
  "fst (getEmployeeStatus ''NAT1001'' world_down) = Inr response1
   \<and> cache (snd (getEmployeeStatus ''NAT1001'' world_down)) = cache world_down
   \<and> client (cache world_down) = Some \<lparr>entries = Map.empty, responsive = False\<rparr>
   \<and> getEmployeeStatus ''NAT1001'' world_hit = (Inr response1, world_hit)
   \<and> map_option (\<lambda>r. entries r ''employee:NAT1001'') (client (cache world_hit))
       = Some (Some (120, response1))"
proof -
  have g: "CacheHandler_get (cache world_down) (getEmployeeKey ''NAT1001'') = None"
    by (simp add: world_down_def CacheHandler_get_def)
  have f: "wrapDatabaseQuery (getUserWithSalaries ''NAT1001'') world_down
             = (Inr (Some (user1, salaries3)), world_down\<lparr>invocations := 1\<rparr>, [])"
    by (simp add: wrapDatabaseQuery_def execute_def spread_options_def DEFAULT_OPTIONS_def
          databaseQuery_onRetry_def execute_loop.simps getUserWithSalaries_def world_down_def
          demo_store_def)
  have p: "processEmployeeStatus (clock world_down)
             ((EmpInfo_new (user_id user1) (user_username user1) (user_nationalNumber user1)
                 (user_email user1) (user_phone user1) (user_isActive user1) (clock world_down))
              \<lparr>salaries := salaries3\<rparr>)
           = (None,
              \<lparr>emp_id = ''1'', username = ''jdoe'', nationalNumber = ''NAT1001'',
               email = ''jdoe@example.com'', phone = ''0790000001'', isActive = True,
               salaries = salaries3,
               adjustedSalaries = [\<lparr>amount = 6600, month = 12, year = 2024\<rparr>,
                                   \<lparr>amount = 5700, month = 7, year = 2024\<rparr>,
                                   \<lparr>amount = 6000, month = 1, year = 2024\<rparr>],
               totalSalary = 18300, averageSalary = 5673, highestSalary = 6600,
               taxAmount = 1281, status = Some GREEN,
               lastUpdated = ''2024-06-01T00:00:00.000Z''\<rparr>)"
    by (simp add: processEmployeeStatus_def user1_def world_down_def EmpInfo_new_def salaries3_def
        isUserActive_def hasSufficientData_def applySalaryAdjustments_def
        applyDecemberBonus_def applySummerDeduction_def calculateTotalSalary_def
        calculateTax_def calculateAverageSalary_def findHighestSalary_def determineStatus_def)
  have d: "getEmployeeStatus ''NAT1001'' world_down
             = (Inr response1, world_down\<lparr>invocations := 1\<rparr>)"
    unfolding getEmployeeStatus_miss [OF validateNationalNumber_examples(1) g f]
    by (simp add: p) (simp add: toResponse_def response1_def CacheHandler_set_def world_down_def)
  have h: "getEmployeeStatus ''NAT1001'' world_hit = (Inr response1, world_hit)"
    by (rule getEmployeeStatus_hit [OF validateNationalNumber_examples(1) world_hit_get])
  show ?thesis
    by (simp add: d h) (simp add: world_down_def world_hit_def)
qed

end
